theory Spec2Isabelle
  imports Complex_Main
begin

section \<open>utils.py: the token estimator\<close>

text \<open>
  \<^verbatim>\<open>def estimate_tokens(text): return len(text) // 4\<close>.
  A text is the list of its characters; Python's \<^verbatim>\<open>//\<close> on non-negative
  operands is \<open>div\<close>.
\<close>

definition estimate_tokens :: "string \<Rightarrow> int" where
  "estimate_tokens text = int (length text) div 4"

section \<open>models.py: the job record and its transition methods\<close>

datatype status = Pending | Processing | Completed | Failed

type_synonym timestamp = nat

text \<open>
  The columns of \<^verbatim>\<open>SummaryJob\<close> that the code reads or writes. The automatic
  \<^verbatim>\<open>created_at\<close>/\<^verbatim>\<open>updated_at\<close> columns are maintained by the ORM and left out.
  A nullable column is an \<open>option\<close>; the float column \<^verbatim>\<open>processing_time\<close> is a real.
\<close>

record job =
  job_id :: string
  project_id :: string
  stakeholder_role :: string
  document_ids :: "string list"
  focus_areas :: "string list"
  max_length :: int
  status :: status
  error_message :: "string option"
  model_used :: "string option"
  tokens_used :: "int option"
  processing_time :: "real option"
  completed_at :: "timestamp option"

text \<open>Python truthiness of the three optional arguments of \<^verbatim>\<open>mark_completed\<close>.\<close>

definition truthy_str :: "string option \<Rightarrow> bool" where
  "truthy_str v = (case v of None \<Rightarrow> False | Some s \<Rightarrow> s \<noteq> [])"

definition truthy_int :: "int option \<Rightarrow> bool" where
  "truthy_int v = (case v of None \<Rightarrow> False | Some n \<Rightarrow> n \<noteq> 0)"

definition truthy_float :: "real option \<Rightarrow> bool" where
  "truthy_float v = (case v of None \<Rightarrow> False | Some x \<Rightarrow> x \<noteq> 0)"

text \<open>
  The three transition methods, as the assignments they make to the job object. Each
  method ends with \<^verbatim>\<open>self.save(...)\<close>, the write of the job's row: that write is
  \<open>save_job\<close>, defined with the tables further down, and the controller applies it after
  each transition.
\<close>

definition mark_processing :: "job \<Rightarrow> job" where
  "mark_processing self = self\<lparr>status := Processing\<rparr>"

text \<open>\<open>now\<close> is the value of \<^verbatim>\<open>timezone.now()\<close> at the call.\<close>

definition mark_completed ::
  "job \<Rightarrow> string option \<Rightarrow> int option \<Rightarrow> real option \<Rightarrow> timestamp \<Rightarrow> job" where
  "mark_completed self model_used_arg tokens_used_arg processing_time_arg now =
     (let self = self\<lparr>status := Completed\<rparr>;
          self = self\<lparr>completed_at := Some now\<rparr>;
          self = (if truthy_str model_used_arg
                  then self\<lparr>model_used := model_used_arg\<rparr> else self);
          self = (if truthy_int tokens_used_arg
                  then self\<lparr>tokens_used := tokens_used_arg\<rparr> else self);
          self = (if truthy_float processing_time_arg
                  then self\<lparr>processing_time := processing_time_arg\<rparr> else self)
      in self)"

definition mark_failed :: "job \<Rightarrow> string \<Rightarrow> timestamp \<Rightarrow> job" where
  "mark_failed self error_message_arg now =
     (let self = self\<lparr>status := Failed\<rparr>;
          self = self\<lparr>error_message := Some error_message_arg\<rparr>;
          self = self\<lparr>completed_at := Some now\<rparr>
      in self)"

section \<open>services.py: values, exceptions and Python operations\<close>

text \<open>
  The values \<^verbatim>\<open>json.loads\<close> produces. A dict is an association list in insertion
  order, read with \<open>map_of\<close>.
\<close>

datatype json =
    JNull
  | JBool bool
  | JInt int
  | JFloat real
  | JStr string
  | JList "json list"
  | JDict "(string \<times> json) list"

text \<open>
  The exceptions that can travel through the pipeline. \<open>External\<close> is an exception raised
  by a collaborator (the model endpoint), carrying its \<^verbatim>\<open>str()\<close>. The messages of the
  errors raised by the interpreter are written as CPython 3.11 words them.
\<close>

datatype error =
    JSONDecodeError string
  | NameError string
  | TypeError string
  | KeyError string
  | AttributeError string
  | IntegrityError string
  | External string

definition quoted :: "string \<Rightarrow> string" where
  "quoted s = [CHR 0x27] @ s @ [CHR 0x27]"

text \<open>\<^verbatim>\<open>str(e)\<close>.\<close>

fun str_error :: "error \<Rightarrow> string" where
  "str_error (JSONDecodeError m) = m"
| "str_error (NameError n) = ''name '' @ quoted n @ '' is not defined''"
| "str_error (TypeError m) = m"
| "str_error (KeyError k) = quoted k"
| "str_error (AttributeError m) = m"
| "str_error (IntegrityError m) = m"
| "str_error (External m) = m"

fun type_name :: "json \<Rightarrow> string" where
  "type_name JNull = ''NoneType''"
| "type_name (JBool _) = ''bool''"
| "type_name (JInt _) = ''int''"
| "type_name (JFloat _) = ''float''"
| "type_name (JStr _) = ''str''"
| "type_name (JList _) = ''list''"
| "type_name (JDict _) = ''dict''"

text \<open>\<^verbatim>\<open>sep.join(xs)\<close> on a list of strings.\<close>

fun join :: "string \<Rightarrow> string list \<Rightarrow> string" where
  "join sep [] = []"
| "join sep [x] = x"
| "join sep (x # y # ys) = x @ sep @ join sep (y # ys)"

text \<open>\<^verbatim>\<open>str(n)\<close> for a non-negative index.\<close>

function str_nat :: "nat \<Rightarrow> string" where
  "str_nat n =
     (if n < 10 then [''0123456789'' ! n]
      else str_nat (n div 10) @ [''0123456789'' ! (n mod 10)])"
  by pat_completeness auto
termination
  by (relation "measure id") auto

declare str_nat.simps [simp del]

text \<open>
  \<^verbatim>\<open>sep.join(items)\<close> on decoded values: the first item that is not a str raises;
  \<open>i\<close> is the position of the head of the list.
\<close>

fun strs_of :: "nat \<Rightarrow> json list \<Rightarrow> error + string list" where
  "strs_of i [] = Inr []"
| "strs_of i (JStr s # rest) =
     (case strs_of (Suc i) rest of Inl e \<Rightarrow> Inl e | Inr ss \<Rightarrow> Inr (s # ss))"
| "strs_of i (v # rest) =
     Inl (TypeError (''sequence item '' @ str_nat i @ '': expected str instance, ''
            @ type_name v @ '' found''))"

definition py_join :: "string \<Rightarrow> json list \<Rightarrow> error + string" where
  "py_join sep items =
     (case strs_of 0 items of Inl e \<Rightarrow> Inl e | Inr ss \<Rightarrow> Inr (join sep ss))"

text \<open>\<^verbatim>\<open>k in s\<close> on two strings: substring test.\<close>

fun is_substring :: "string \<Rightarrow> string \<Rightarrow> bool" where
  "is_substring k [] = (k = [])"
| "is_substring k (c # cs) = (take (length k) (c # cs) = k \<or> is_substring k cs)"

text \<open>\<^verbatim>\<open>key in data\<close> for a str key.\<close>

fun py_contains :: "json \<Rightarrow> string \<Rightarrow> error + bool" where
  "py_contains (JDict kvs) k = Inr (map_of kvs k \<noteq> None)"
| "py_contains (JList xs) k = Inr (JStr k \<in> set xs)"
| "py_contains (JStr s) k = Inr (is_substring k s)"
| "py_contains v k =
     Inl (TypeError (''argument of type '' @ quoted (type_name v) @ '' is not iterable''))"

text \<open>\<^verbatim>\<open>data[key]\<close> for a str key.\<close>

fun py_getitem :: "json \<Rightarrow> string \<Rightarrow> error + json" where
  "py_getitem (JDict kvs) k =
     (case map_of kvs k of None \<Rightarrow> Inl (KeyError k) | Some v \<Rightarrow> Inr v)"
| "py_getitem (JList xs) k =
     Inl (TypeError ''list indices must be integers or slices, not str'')"
| "py_getitem (JStr s) k =
     Inl (TypeError (''string indices must be integers, not '' @ quoted ''str''))"
| "py_getitem v k =
     Inl (TypeError (quoted (type_name v) @ '' object is not subscriptable''))"

fun dict_set :: "(string \<times> json) list \<Rightarrow> string \<Rightarrow> json \<Rightarrow> (string \<times> json) list" where
  "dict_set [] k v = [(k, v)]"
| "dict_set ((k', v') # kvs) k v =
     (if k' = k then (k, v) # kvs else (k', v') # dict_set kvs k v)"

text \<open>\<^verbatim>\<open>data[key] = value\<close> for a str key.\<close>

fun py_setitem :: "json \<Rightarrow> string \<Rightarrow> json \<Rightarrow> error + json" where
  "py_setitem (JDict kvs) k v = Inr (JDict (dict_set kvs k v))"
| "py_setitem (JList xs) k v =
     Inl (TypeError ''list indices must be integers or slices, not str'')"
| "py_setitem d k v =
     Inl (TypeError (quoted (type_name d) @ '' object does not support item assignment''))"

text \<open>\<^verbatim>\<open>data.get(key, default)\<close>.\<close>

fun py_get :: "json \<Rightarrow> string \<Rightarrow> json \<Rightarrow> error + json" where
  "py_get (JDict kvs) k dflt = Inr (case map_of kvs k of None \<Rightarrow> dflt | Some v \<Rightarrow> v)"
| "py_get d k dflt =
     Inl (AttributeError (quoted (type_name d) @ '' object has no attribute '' @ quoted ''get''))"

text \<open>The items a \<^verbatim>\<open>for\<close> loop (or \<^verbatim>\<open>enumerate\<close>) draws from a value.\<close>

fun py_iter :: "json \<Rightarrow> error + json list" where
  "py_iter (JList xs) = Inr xs"
| "py_iter (JDict kvs) = Inr (map (\<lambda>kv. JStr (fst kv)) kvs)"
| "py_iter (JStr s) = Inr (map (\<lambda>c. JStr [c]) s)"
| "py_iter v = Inl (TypeError (quoted (type_name v) @ '' object is not iterable''))"

text \<open>\<^verbatim>\<open>s[:n]\<close>: a negative bound counts from the end.\<close>

definition py_slice_to :: "string \<Rightarrow> int \<Rightarrow> string" where
  "py_slice_to s n = (if 0 \<le> n then take (nat n) s else take (length s - nat (- n)) s)"

section \<open>services.py: the stakeholder table and the collaborators\<close>

record stakeholder_config =
  focus :: string
  sections :: "string list"

definition STAKEHOLDER_PROMPTS :: "(string \<times> stakeholder_config) list" where
  "STAKEHOLDER_PROMPTS =
    [(''developer'',
        \<lparr>focus = ''technical specifications, building codes, construction methods, and quality standards'',
         sections = [''Technical Overview'', ''Quality Standards'', ''Compliance Requirements'', ''Key Risks'']\<rparr>),
     (''contractor'',
        \<lparr>focus = ''project scope, timelines, resources, change orders, and deliverables'',
         sections = [''Project Scope'', ''Timeline & Milestones'', ''Resource Requirements'', ''Change Management'']\<rparr>),
     (''architect'',
        \<lparr>focus = ''design intent, specifications, building codes, and design changes'',
         sections = [''Design Overview'', ''Specifications'', ''Code Compliance'', ''Design Changes'']\<rparr>),
     (''client'',
        \<lparr>focus = ''project progress, budget status, timeline, and quality outcomes'',
         sections = [''Project Status'', ''Budget Summary'', ''Timeline'', ''Quality Assurance'']\<rparr>),
     (''project_manager'',
        \<lparr>focus = ''overall status, risks, issues, resource allocation, and stakeholder coordination'',
         sections = [''Executive Summary'', ''Risk & Issues'', ''Resource Status'', ''Key Decisions'']\<rparr>),
     (''legal'',
        \<lparr>focus = ''contractual obligations, compliance, claims, disputes, and liability'',
         sections = [''Contractual Overview'', ''Compliance Status'', ''Claims & Disputes'', ''Risk Exposure'']\<rparr>),
     (''finance'',
        \<lparr>focus = ''costs, budget variance, payment status, and financial forecasts'',
         sections = [''Financial Summary'', ''Budget Variance'', ''Cash Flow'', ''Financial Risks'']\<rparr>),
     (''executive'',
        \<lparr>focus = ''high-level status, strategic risks, financial health, and key decisions needed'',
         sections = [''Executive Summary'', ''Strategic Overview'', ''Financial Health'', ''Critical Actions'']\<rparr>)]"

text \<open>
  \<^verbatim>\<open>STAKEHOLDER_PROMPTS.get(role, STAKEHOLDER_PROMPTS['executive'])\<close>: the default is
  evaluated first (a subscript, which raises on a missing key), then the lookup.
\<close>

definition get_stakeholder_config :: "string \<Rightarrow> error + stakeholder_config" where
  "get_stakeholder_config role =
     (case map_of STAKEHOLDER_PROMPTS ''executive'' of
        None \<Rightarrow> Inl (KeyError ''executive'')
      | Some dflt \<Rightarrow>
          Inr (case map_of STAKEHOLDER_PROMPTS role of None \<Rightarrow> dflt | Some c \<Rightarrow> c))"

text \<open>
  One model invocation: the keyword arguments \<^verbatim>\<open>chain.run\<close> receives (the two templates
  are constants of the code).
\<close>

record prompt =
  p_stakeholder_role :: string
  p_focus :: string
  p_max_length :: int
  p_content :: string
  p_sections :: string
  p_focus_areas :: string

text \<open>
  The service object \<^verbatim>\<open>self\<close> with its collaborators, none of which is code of the
  repository:
  \<^item> \<open>llm k p\<close> is what the \<open>k\<close>-th model invocation of the run answers to prompt \<open>p\<close>: an
    exception, or the response text with the callback's \<^verbatim>\<open>total_tokens\<close>;
  \<^item> \<open>split_text\<close> is \<^verbatim>\<open>RecursiveCharacterTextSplitter(chunk_size=4000,
    chunk_overlap=200, length_function=len).split_text\<close>;
  \<^item> \<open>json_loads\<close> is \<^verbatim>\<open>json.loads\<close>.
\<close>

record service =
  model_name :: "string option"
  llm :: "nat \<Rightarrow> prompt \<Rightarrow> error + string \<times> int"
  split_text :: "string \<Rightarrow> string list"
  json_loads :: "string \<Rightarrow> error + json"

definition chunk_size :: nat where
  "chunk_size = 4000"

section \<open>services.py: the response parser\<close>

text \<open>
  The \<^verbatim>\<open>try\<close> block of \<^verbatim>\<open>_parse_llm_response\<close>: \<open>Inr (Some data)\<close> is the early
  \<^verbatim>\<open>return data\<close>, \<open>Inr None\<close> falls through to the fallback (after the handler for
  \<^verbatim>\<open>json.JSONDecodeError\<close>, or when a key is missing), \<open>Inl e\<close> is any other exception,
  which the handler does not catch.
\<close>

definition try_json :: "service \<Rightarrow> string \<Rightarrow> error + json option" where
  "try_json self response =
     (case json_loads self response of
        Inl (JSONDecodeError m) \<Rightarrow> Inr None
      | Inl e \<Rightarrow> Inl e
      | Inr data \<Rightarrow>
          (case py_contains data ''sections'' of
             Inl e \<Rightarrow> Inl e
           | Inr False \<Rightarrow> Inr None
           | Inr True \<Rightarrow>
               (case py_contains data ''full_summary'' of
                  Inl e \<Rightarrow> Inl e
                | Inr False \<Rightarrow> Inr None
                | Inr True \<Rightarrow> Inr (Some data))))"

text \<open>The section dict the fallback loop appends for one title.\<close>

definition fallback_section :: "string \<Rightarrow> string list \<Rightarrow> json" where
  "fallback_section section_title doc_ids =
     JDict
       [(''title'', JStr section_title),
        (''content'', JStr (''[Content for '' @ section_title @ '' - parsed from response]'')),
        (''key_points'',
           JList [JStr (''Key point 1 for '' @ section_title),
                  JStr (''Key point 2 for '' @ section_title)]),
        (''evidence_ids'',
           JList (map JStr (if doc_ids \<noteq> [] then take 2 doc_ids else [])))]"

text \<open>
  What the name \<^verbatim>\<open>job\<close> resolves to inside \<^verbatim>\<open>_parse_llm_response\<close>. The function's
  parameters are \<^verbatim>\<open>self, response, stakeholder_config, document_ids\<close>; its body assigns
  \<^verbatim>\<open>json, data, sections, i, section_title\<close>; the module binds no global \<^verbatim>\<open>job\<close>.
  The name is unbound: \<open>None\<close>.
\<close>

definition job_in_scope :: "job option" where
  "job_in_scope = None"

text \<open>
  \<^verbatim>\<open>response[:job.max_length * 5] if hasattr(job, 'max_length') else response[:2500]\<close>.
  The condition is evaluated first and reads the name \<^verbatim>\<open>job\<close>. Every job record has
  the field \<^verbatim>\<open>max_length\<close>.
\<close>

definition fallback_full_summary :: "string \<Rightarrow> error + string" where
  "fallback_full_summary response =
     (case job_in_scope of
        None \<Rightarrow> Inl (NameError ''job'')
      | Some job \<Rightarrow> Inr (py_slice_to response (max_length job * 5)))"

definition fallback :: "string \<Rightarrow> stakeholder_config \<Rightarrow> string list \<Rightarrow> error + json" where
  "fallback response config doc_ids =
     (let sections_list =
            map (\<lambda>section_title. fallback_section section_title doc_ids)
              (sections config)
      in case fallback_full_summary response of
           Inl e \<Rightarrow> Inl e
         | Inr full_summary \<Rightarrow>
             Inr (JDict [(''sections'', JList sections_list),
                         (''full_summary'', JStr full_summary),
                         (''tokens_used'', JInt 0)]))"

definition parse_llm_response ::
  "service \<Rightarrow> string \<Rightarrow> stakeholder_config \<Rightarrow> string list \<Rightarrow> error + json" where
  "parse_llm_response self response config doc_ids =
     (case try_json self response of
        Inl e \<Rightarrow> Inl e
      | Inr (Some data) \<Rightarrow> Inr data
      | Inr None \<Rightarrow> fallback response config doc_ids)"

section \<open>services.py: the synthesizer\<close>

text \<open>
  \<^verbatim>\<open>_single_document_summary\<close>. \<open>calls\<close> is the log of the prompts sent to the model so
  far in the run; the function appends the prompt it sends. A dict returned by the
  parser gets the call's token count stored under \<^verbatim>\<open>tokens_used\<close>.
\<close>

definition build_prompt :: "job \<Rightarrow> string \<Rightarrow> stakeholder_config \<Rightarrow> prompt" where
  "build_prompt job content config =
     (let focus_str = (if focus_areas job \<noteq> [] then join '', '' (focus_areas job)
                       else focus config)
      in \<lparr>p_stakeholder_role = stakeholder_role job,
          p_focus = focus config,
          p_max_length = max_length job,
          p_content = content,
          p_sections = join '', '' (sections config),
          p_focus_areas = focus_str\<rparr>)"

definition single_document_summary ::
  "service \<Rightarrow> job \<Rightarrow> string \<Rightarrow> stakeholder_config \<Rightarrow> prompt list
     \<Rightarrow> prompt list \<times> (error + json)" where
  "single_document_summary self job content config calls =
     (let p = build_prompt job content config;
          calls' = calls @ [p]
      in case llm self (length calls) p of
           Inl e \<Rightarrow> (calls', Inl e)
         | Inr (response, tokens) \<Rightarrow>
             (case parse_llm_response self response config (document_ids job) of
                Inl e \<Rightarrow> (calls', Inl e)
              | Inr summary_data \<Rightarrow>
                  (calls', py_setitem summary_data ''tokens_used'' (JInt tokens))))"

text \<open>
  \<^verbatim>\<open>total_tokens += chunk_summary.get('tokens_used', 0)\<close>. The value stored under
  \<^verbatim>\<open>tokens_used\<close> is the int \<^verbatim>\<open>cb.total_tokens\<close>; a value that is not a number
  cannot be added to an int.
\<close>

definition add_tokens_used :: "int \<Rightarrow> json \<Rightarrow> error + int" where
  "add_tokens_used total_tokens summary =
     (case py_get summary ''tokens_used'' (JInt 0) of
        Inl e \<Rightarrow> Inl e
      | Inr (JInt n) \<Rightarrow> Inr (total_tokens + n)
      | Inr (JBool b) \<Rightarrow> Inr (total_tokens + (if b then 1 else 0))
      | Inr v \<Rightarrow>
          Inl (TypeError (''unsupported operand type(s) for +: '' @ quoted ''int''
                 @ '' and '' @ quoted (type_name v))))"

text \<open>
  The loop of step 1 of \<^verbatim>\<open>_multi_document_synthesis\<close>, from the state
  \<open>(chunk_summaries, total_tokens)\<close>.
\<close>

fun summarize_chunks ::
  "service \<Rightarrow> job \<Rightarrow> stakeholder_config \<Rightarrow> string list \<Rightarrow> json list \<Rightarrow> int \<Rightarrow> prompt list
     \<Rightarrow> prompt list \<times> (error + json list \<times> int)" where
  "summarize_chunks self job config [] chunk_summaries total_tokens calls =
     (calls, Inr (chunk_summaries, total_tokens))"
| "summarize_chunks self job config (chunk # rest) chunk_summaries total_tokens calls =
     (case single_document_summary self job chunk config calls of
        (calls', Inl e) \<Rightarrow> (calls', Inl e)
      | (calls', Inr chunk_summary) \<Rightarrow>
          (case py_getitem chunk_summary ''full_summary'' of
             Inl e \<Rightarrow> (calls', Inl e)
           | Inr full_summary \<Rightarrow>
               (case add_tokens_used total_tokens chunk_summary of
                  Inl e \<Rightarrow> (calls', Inl e)
                | Inr total_tokens' \<Rightarrow>
                    summarize_chunks self job config rest
                      (chunk_summaries @ [full_summary]) total_tokens' calls')))"

definition multi_document_synthesis ::
  "service \<Rightarrow> job \<Rightarrow> string list \<Rightarrow> stakeholder_config \<Rightarrow> prompt list
     \<Rightarrow> prompt list \<times> (error + json)" where
  "multi_document_synthesis self job chunks config calls =
     (case summarize_chunks self job config chunks [] 0 calls of
        (calls1, Inl e) \<Rightarrow> (calls1, Inl e)
      | (calls1, Inr (chunk_summaries, total_tokens)) \<Rightarrow>
          (case py_join ''\<newline>\<newline>'' chunk_summaries of
             Inl e \<Rightarrow> (calls1, Inl e)
           | Inr combined_summaries \<Rightarrow>
               (case single_document_summary self job combined_summaries config calls1 of
                  (calls2, Inl e) \<Rightarrow> (calls2, Inl e)
                | (calls2, Inr final_summary) \<Rightarrow>
                    (case add_tokens_used total_tokens final_summary of
                       Inl e \<Rightarrow> (calls2, Inl e)
                     | Inr sum_tokens \<Rightarrow>
                         (calls2, py_setitem final_summary ''tokens_used'' (JInt sum_tokens))))))"

text \<open>The rows of \<^verbatim>\<open>DocumentContext\<close> (the automatic id and timestamp left out).\<close>

record document_context =
  dc_job_id :: string
  dc_document_id :: string
  dc_document_type :: string
  dc_extracted_text :: string
  dc_metadata :: json
  dc_relevance_score :: real

definition combine_document_texts :: "document_context list \<Rightarrow> string" where
  "combine_document_texts contexts =
     join ''\<newline>\<newline>''
       (map (\<lambda>ctx. ''--- Document '' @ dc_document_id ctx @ '' ---\<newline>''
                    @ dc_extracted_text ctx @ ''\<newline>'')
          contexts)"

text \<open>\<^verbatim>\<open>tokens_used = summary_data.get('tokens_used', 0)\<close>, an int as above.\<close>

definition generate_with_langchain ::
  "service \<Rightarrow> job \<Rightarrow> document_context list \<Rightarrow> prompt list
     \<Rightarrow> prompt list \<times> (error + json \<times> int)" where
  "generate_with_langchain self job contexts calls =
     (case get_stakeholder_config (stakeholder_role job) of
        Inl e \<Rightarrow> (calls, Inl e)
      | Inr config \<Rightarrow>
          (let combined_text = combine_document_texts contexts;
               chunks = split_text self combined_text
           in case (if length chunks > 1
                    then multi_document_synthesis self job chunks config calls
                    else single_document_summary self job combined_text config calls) of
                (calls', Inl e) \<Rightarrow> (calls', Inl e)
              | (calls', Inr summary_data) \<Rightarrow>
                  (case add_tokens_used 0 summary_data of
                     Inl e \<Rightarrow> (calls', Inl e)
                   | Inr tokens \<Rightarrow> (calls', Inr (summary_data, tokens)))))"

section \<open>services.py: persistence and the job lifecycle controller\<close>

text \<open>
  The tables written by the service. The stored fields hold the values as passed;
  column-level constraints (lengths, NOT NULL) are not modelled. The primary key of
  \<^verbatim>\<open>GeneratedSummary\<close> and its one-to-one link to the job are. Of the table of
  jobs the model keeps \<open>status_writes\<close>: the job id and the status of every write to a
  job's row, in the order of the writes.
\<close>

record generated_summary =
  gs_id :: string
  gs_job_id :: string
  gs_project_id :: string
  gs_stakeholder_role :: string
  gs_full_summary :: json

record summary_section =
  ss_summary_id :: string
  ss_title :: json
  ss_content :: json
  ss_order :: nat
  ss_key_points :: json
  ss_evidence_ids :: json

record db =
  summaries :: "generated_summary list"
  summary_sections :: "summary_section list"
  document_contexts :: "document_context list"
  status_writes :: "(string \<times> status) list"

text \<open>
  \<^verbatim>\<open>self.save(...)\<close>, the last statement of each transition method of the job: the
  row of the job is written with the status the object holds. (\<open>mark_processing\<close>,
  \<open>mark_completed\<close> and \<open>mark_failed\<close> above are the assignments of the three methods; the
  controller below follows each with this write.)
\<close>

definition save_job :: "job \<Rightarrow> db \<Rightarrow> db" where
  "save_job self d = d\<lparr>status_writes := status_writes d @ [(job_id self, status self)]\<rparr>"

definition fetch_document_contexts :: "job \<Rightarrow> db \<Rightarrow> db \<times> document_context list" where
  "fetch_document_contexts job d =
     (let contexts =
            map (\<lambda>doc_id.
                   \<lparr>dc_job_id = job_id job,
                    dc_document_id = doc_id,
                    dc_document_type = ''unknown'',
                    dc_extracted_text =
                      ''[Document '' @ doc_id
                        @ '' content would be fetched from ingestion service]'',
                    dc_metadata = JDict [],
                    dc_relevance_score = 1\<rparr>)
              (document_ids job)
      in (d\<lparr>document_contexts := document_contexts d @ contexts\<rparr>, contexts))"

text \<open>The loop of \<^verbatim>\<open>_create_summary_records\<close> over \<^verbatim>\<open>enumerate(...)\<close>, from index \<open>i\<close>.\<close>

fun create_sections :: "string \<Rightarrow> json list \<Rightarrow> nat \<Rightarrow> db \<Rightarrow> db \<times> (error + unit)" where
  "create_sections summary_id [] i d = (d, Inr ())"
| "create_sections summary_id (section_data # rest) i d =
     (case py_getitem section_data ''title'' of
        Inl e \<Rightarrow> (d, Inl e)
      | Inr title \<Rightarrow>
     (case py_getitem section_data ''content'' of
        Inl e \<Rightarrow> (d, Inl e)
      | Inr content \<Rightarrow>
     (case py_get section_data ''key_points'' (JList []) of
        Inl e \<Rightarrow> (d, Inl e)
      | Inr key_points \<Rightarrow>
     (case py_get section_data ''evidence_ids'' (JList []) of
        Inl e \<Rightarrow> (d, Inl e)
      | Inr evidence_ids \<Rightarrow>
          create_sections summary_id rest (Suc i)
            (d\<lparr>summary_sections := summary_sections d @
                 [\<lparr>ss_summary_id = summary_id, ss_title = title, ss_content = content,
                   ss_order = i, ss_key_points = key_points,
                   ss_evidence_ids = evidence_ids\<rparr>]\<rparr>)))))"

definition create_summary_records :: "job \<Rightarrow> json \<Rightarrow> db \<Rightarrow> db \<times> (error + generated_summary)" where
  "create_summary_records job summary_data d =
     (case py_getitem summary_data ''full_summary'' of
        Inl e \<Rightarrow> (d, Inl e)
      | Inr full_summary \<Rightarrow>
          (let summary =
                 \<lparr>gs_id = ''sum_'' @ job_id job,
                  gs_job_id = job_id job,
                  gs_project_id = project_id job,
                  gs_stakeholder_role = stakeholder_role job,
                  gs_full_summary = full_summary\<rparr>
           in if gs_id summary \<in> set (map gs_id (summaries d))
                 \<or> gs_job_id summary \<in> set (map gs_job_id (summaries d))
              then (d, Inl (IntegrityError ''duplicate key value violates unique constraint''))
              else
                (let d1 = d\<lparr>summaries := summaries d @ [summary]\<rparr>
                 in case py_getitem summary_data ''sections'' of
                      Inl e \<Rightarrow> (d1, Inl e)
                    | Inr section_values \<Rightarrow>
                        (case py_iter section_values of
                           Inl e \<Rightarrow> (d1, Inl e)
                         | Inr items \<Rightarrow>
                             (case create_sections (gs_id summary) items 0 d1 of
                                (d2, Inl e) \<Rightarrow> (d2, Inl e)
                              | (d2, Inr u) \<Rightarrow> (d2, Inr summary))))))"

text \<open>
  \<^verbatim>\<open>generate_summary\<close>. The \<^verbatim>\<open>try\<close> block is the chain of stages; the handler
  \<^verbatim>\<open>except Exception as e: job.mark_failed(str(e)); raise\<close> is the \<open>Inl\<close> branch of each.
  \<open>start_time\<close> and \<open>end_time\<close> are the two readings of \<^verbatim>\<open>time.time()\<close>, \<open>now\<close> the
  reading of \<^verbatim>\<open>timezone.now()\<close> in the transition method. Each call of a transition
  method is the assignment followed by the write of the row (\<open>save_job\<close>). The result
  carries the job, the tables and the call log as the run leaves them.
\<close>

definition generate_summary ::
  "service \<Rightarrow> job \<Rightarrow> db \<Rightarrow> prompt list \<Rightarrow> real \<Rightarrow> real \<Rightarrow> timestamp
     \<Rightarrow> job \<times> db \<times> prompt list \<times> (error + generated_summary)" where
  "generate_summary self job d calls start_time end_time now =
     (let job1 = mark_processing job;
          d0 = save_job job1 d;
          (d1, contexts) = fetch_document_contexts job1 d0
      in case generate_with_langchain self job1 contexts calls of
           (calls', Inl e) \<Rightarrow>
             (let job2 = mark_failed job1 (str_error e) now
              in (job2, save_job job2 d1, calls', Inl e))
         | (calls', Inr (summary_data, tokens)) \<Rightarrow>
             (case create_summary_records job1 summary_data d1 of
                (d2, Inl e) \<Rightarrow>
                  (let job2 = mark_failed job1 (str_error e) now
                   in (job2, save_job job2 d2, calls', Inl e))
              | (d2, Inr summary) \<Rightarrow>
                  (let job2 = mark_completed job1 (model_name self) (Some tokens)
                                (Some (end_time - start_time)) now
                   in (job2, save_job job2 d2, calls', Inr summary))))"

section \<open>Observations on a run, and the inputs of the examples\<close>

text \<open>The eight role identifiers of \<^verbatim>\<open>SummaryJob.STAKEHOLDER_ROLES\<close> (models.py).\<close>

definition STAKEHOLDER_ROLES :: "(string \<times> string) list" where
  "STAKEHOLDER_ROLES =
    [(''developer'', ''Developer''), (''contractor'', ''Contractor''),
     (''architect'', ''Architect''), (''client'', ''Client''),
     (''project_manager'', ''Project Manager''), (''legal'', ''Legal''),
     (''finance'', ''Finance''), (''executive'', ''Executive'')]"

definition executive_config :: stakeholder_config where
  "executive_config =
     \<lparr>focus = ''high-level status, strategic risks, financial health, and key decisions needed'',
      sections = [''Executive Summary'', ''Strategic Overview'', ''Financial Health'',
                  ''Critical Actions'']\<rparr>"

definition finance_config :: stakeholder_config where
  "finance_config =
     \<lparr>focus = ''costs, budget variance, payment status, and financial forecasts'',
      sections = [''Financial Summary'', ''Budget Variance'', ''Cash Flow'', ''Financial Risks'']\<rparr>"

text \<open>
  The two stages of the \<^verbatim>\<open>try\<close> block that can raise, as \<^verbatim>\<open>generate_summary\<close> calls
  them on a job: the synthesis (model invocations and parsing) on the contexts fetched
  for the job, and the creation of the records for the data the synthesis returned.
\<close>

definition synthesis_stage ::
  "service \<Rightarrow> job \<Rightarrow> db \<Rightarrow> prompt list \<Rightarrow> prompt list \<times> (error + json \<times> int)" where
  "synthesis_stage self job d calls =
     generate_with_langchain self (mark_processing job)
       (snd (fetch_document_contexts (mark_processing job)
               (save_job (mark_processing job) d)))
       calls"

definition record_stage :: "job \<Rightarrow> json \<Rightarrow> db \<Rightarrow> db \<times> (error + generated_summary)" where
  "record_stage job summary_data d =
     create_summary_records (mark_processing job) summary_data
       (fst (fetch_document_contexts (mark_processing job)
               (save_job (mark_processing job) d)))"

text \<open>The token usage the \<open>k\<close>-th invocation in the log reported (0 if it raised).\<close>

definition usage :: "service \<Rightarrow> prompt list \<Rightarrow> nat \<Rightarrow> int" where
  "usage self calls k =
     (case llm self k (calls ! k) of Inl e \<Rightarrow> 0 | Inr (response, tokens) \<Rightarrow> tokens)"

text \<open>
  The \<^verbatim>\<open>full_summary\<close> entry of the data parsed from the answer to the \<open>k\<close>-th
  invocation in the log (\<open>JNull\<close> if that invocation or its parse raised).
\<close>

definition call_summary :: "service \<Rightarrow> job \<Rightarrow> stakeholder_config \<Rightarrow> prompt list \<Rightarrow> nat \<Rightarrow> json" where
  "call_summary self job config calls k =
     (case llm self k (calls ! k) of
        Inl e \<Rightarrow> JNull
      | Inr (response, tokens) \<Rightarrow>
          (case parse_llm_response self response config (document_ids job) of
             Inl e \<Rightarrow> JNull
           | Inr data \<Rightarrow>
               (case py_getitem data ''full_summary'' of Inl e \<Rightarrow> JNull | Inr v \<Rightarrow> v)))"

definition str_of :: "json \<Rightarrow> string" where
  "str_of v = (case v of JStr s \<Rightarrow> s | _ \<Rightarrow> [])"

text \<open>
  The response texts of the examples, with the value of \<^verbatim>\<open>json.loads\<close> at each. The
  examples call \<open>sample_loads\<close> on these texts only.
\<close>

definition long_summary :: string where
  "long_summary = replicate 2000 (CHR ''x'')"

definition garbage_response :: string where
  "garbage_response = ''Here is your summary.''"

definition long_response :: string where
  \<open>long_response = ''{"full_summary": "'' @ long_summary @ ''", "sections": []}''\<close>

definition ok_response :: string where
  \<open>ok_response = ''{"sections": [], "full_summary": "ok"}''\<close>

definition seven_response :: string where
  \<open>seven_response = ''{"sections": [], "full_summary": 7}''\<close>

definition untitled_response :: string where
  \<open>untitled_response = ''{"sections": [{"content": "c"}], "full_summary": "s"}''\<close>

definition spec_response :: string where
  \<open>spec_response =
     ''{"sections":[{"title":"A","content":"c","key_points":["k"],"evidence_ids":[]}],"full_summary":"s"}''\<close>

definition sample_texts :: "(string \<times> (error + json)) list" where
  "sample_texts =
    [(garbage_response,
        Inl (JSONDecodeError ''Expecting value: line 1 column 1 (char 0)'')),
     (long_response,
        Inr (JDict [(''full_summary'', JStr long_summary), (''sections'', JList [])])),
     (ok_response,
        Inr (JDict [(''sections'', JList []), (''full_summary'', JStr ''ok'')])),
     (seven_response,
        Inr (JDict [(''sections'', JList []), (''full_summary'', JInt 7)])),
     (untitled_response,
        Inr (JDict [(''sections'', JList [JDict [(''content'', JStr ''c'')]]),
                    (''full_summary'', JStr ''s'')])),
     (spec_response,
        Inr (JDict [(''sections'',
                       JList [JDict [(''title'', JStr ''A''), (''content'', JStr ''c''),
                                     (''key_points'', JList [JStr ''k'']),
                                     (''evidence_ids'', JList [])]]),
                    (''full_summary'', JStr ''s'')])),
     (''7'', Inr (JInt 7))]"

definition sample_loads :: "string \<Rightarrow> error + json" where
  "sample_loads text =
     (case map_of sample_texts text of
        Some r \<Rightarrow> r
      | None \<Rightarrow> Inl (JSONDecodeError ''Expecting value''))"

text \<open>A stand-in splitter for the examples: two pieces when the text exceeds \<open>n\<close> characters.\<close>

definition two_way_split :: "nat \<Rightarrow> string \<Rightarrow> string list" where
  "two_way_split n text = (if length text \<le> n then [text] else [take n text, drop n text])"

text \<open>A service whose model answers every prompt with \<open>response\<close> and reports \<open>tokens\<close>.\<close>

definition constant_service :: "string \<Rightarrow> int \<Rightarrow> service" where
  "constant_service response tokens =
     \<lparr>model_name = Some ''gpt-4'',
      llm = (\<lambda>k p. Inr (response, tokens)),
      split_text = two_way_split 100,
      json_loads = sample_loads\<rparr>"

text \<open>A service whose model endpoint raises an exception with message \<open>msg\<close> on every call.\<close>

definition failing_service :: "string \<Rightarrow> service" where
  "failing_service msg =
     \<lparr>model_name = Some ''gpt-4'',
      llm = (\<lambda>k p. Inl (External msg)),
      split_text = two_way_split 100,
      json_loads = sample_loads\<rparr>"

definition sample_job :: job where
  "sample_job =
     \<lparr>job_id = ''job-1'', project_id = ''project-1'', stakeholder_role = ''finance'',
      document_ids = [''doc1'', ''doc2'', ''doc3''], focus_areas = [], max_length = 500,
      status = Pending, error_message = None, model_used = None, tokens_used = None,
      processing_time = None, completed_at = None\<rparr>"

definition small_job :: job where
  "small_job = sample_job\<lparr>document_ids := [''doc1'']\<rparr>"

definition empty_db :: db where
  "empty_db =
     \<lparr>summaries = [], summary_sections = [], document_contexts = [], status_writes = []\<rparr>"

definition small_contexts :: "document_context list" where
  "small_contexts = snd (fetch_document_contexts small_job empty_db)"

definition sample_contexts :: "document_context list" where
  "sample_contexts = snd (fetch_document_contexts sample_job empty_db)"


section \<open>Properties of the token estimator\<close>

text \<open>
  Claim C8: the token estimator returns a non-negative integer, the character count
  integer-divided by 4, and it is monotonic in the length of the text: a text that is
  no longer than another never gets the larger estimate. (Being a HOL function, the
  estimator is pure and deterministic.)
\<close>

theorem estimate_tokens_nonneg_monotonic:
  "0 \<le> estimate_tokens s
   \<and> estimate_tokens s = int (length s) div 4
   \<and> (length s \<le> length t \<longrightarrow> estimate_tokens s \<le> estimate_tokens t)"
proof -
  have nonneg: "0 \<le> estimate_tokens s"
    unfolding estimate_tokens_def by simp
  have mono: "estimate_tokens s \<le> estimate_tokens t" if "length s \<le> length t"
  proof -
    from that have "int (length s) \<le> int (length t)" by simp
    then show ?thesis
      unfolding estimate_tokens_def by (rule zdiv_mono1) simp
  qed
  from nonneg mono show ?thesis
    by (simp add: estimate_tokens_def)
qed

theorem estimate_tokens_witness:
  "length ''abcde'' \<le> length ''abcdefghi''
   \<and> estimate_tokens ''abcde'' = 1 \<and> estimate_tokens ''abcdefghi'' = 2
   \<and> estimate_tokens ''abcde'' \<le> estimate_tokens ''abcdefghi''"
  using estimate_tokens_nonneg_monotonic [of "''abcde''" "''abcdefghi''"]
  by (simp add: estimate_tokens_def)

section \<open>Lemmas on the synthesizer\<close>

lemma map_of_dict_set:
  "map_of (dict_set kvs k v) k' = (if k' = k then Some v else map_of kvs k')"
  by (induction kvs) auto

lemma py_setitem_Inr:
  assumes "py_setitem d k v = Inr d'"
  obtains kvs where "d = JDict kvs" and "d' = JDict (dict_set kvs k v)"
  using assms by (cases d) auto

lemma single_document_summary_calls:
  "fst (single_document_summary self job content config calls)
     = calls @ [build_prompt job content config]"
  by (simp add: single_document_summary_def Let_def split: sum.splits prod.splits)

lemma usage_append:
  "k < length xs \<Longrightarrow> usage self (xs @ ys) k = usage self xs k"
  by (simp add: usage_def nth_append)

lemma call_summary_append:
  "k < length xs \<Longrightarrow> call_summary self job config (xs @ ys) k = call_summary self job config xs k"
  by (simp add: call_summary_def nth_append)

lemma single_document_summary_Inr:
  assumes "single_document_summary self job content config calls = (calls', Inr d)"
  shows "calls' = calls @ [build_prompt job content config]"
    and "add_tokens_used total_tokens d = Inr (total_tokens + usage self calls' (length calls))"
    and "py_getitem d ''full_summary'' = Inr v
           \<Longrightarrow> v = call_summary self job config calls' (length calls)"
proof -
  let ?p = "build_prompt job content config"
  from assms show c: "calls' = calls @ [?p]"
    using single_document_summary_calls [of self job content config calls] by simp
  from assms obtain response tokens summary_data where
    l: "llm self (length calls) ?p = Inr (response, tokens)" and
    p: "parse_llm_response self response config (document_ids job) = Inr summary_data" and
    s: "py_setitem summary_data ''tokens_used'' (JInt tokens) = Inr d"
    by (auto simp: single_document_summary_def Let_def split: sum.splits prod.splits)
  from s obtain kvs where k: "summary_data = JDict kvs"
    and d: "d = JDict (dict_set kvs ''tokens_used'' (JInt tokens))"
    by (rule py_setitem_Inr)
  from l c have u: "usage self calls' (length calls) = tokens"
    by (simp add: usage_def)
  show "add_tokens_used total_tokens d = Inr (total_tokens + usage self calls' (length calls))"
    by (simp add: u d add_tokens_used_def map_of_dict_set)
  show "v = call_summary self job config calls' (length calls)"
    if "py_getitem d ''full_summary'' = Inr v"
  proof -
    from that d have "py_getitem (JDict kvs) ''full_summary'' = Inr v"
      by (simp add: map_of_dict_set)
    with l p k c show ?thesis
      by (simp add: call_summary_def)
  qed
qed

lemma summarize_chunks_length:
  "length (fst (summarize_chunks self job config chunks acc total_tokens calls))
     \<le> length calls + length chunks"
proof (induction chunks arbitrary: acc total_tokens calls)
  case Nil
  then show ?case by simp
next
  case (Cons chunk rest)
  obtain calls1 r where s: "single_document_summary self job chunk config calls = (calls1, r)"
    by (cases "single_document_summary self job chunk config calls")
  then have l1: "length calls1 = Suc (length calls)"
    using single_document_summary_calls [of self job chunk config calls] by simp
  show ?case
  proof (cases r)
    case (Inl e)
    with s l1 show ?thesis by simp
  next
    case (Inr chunk_summary)
    show ?thesis
    proof (cases "py_getitem chunk_summary ''full_summary''")
      case (Inl e)
      with s Inr l1 show ?thesis by simp
    next
      case g: (Inr full_summary)
      show ?thesis
      proof (cases "add_tokens_used total_tokens chunk_summary")
        case (Inl e)
        with s Inr g l1 show ?thesis by simp
      next
        case a: (Inr total')
        from Cons.IH [of "acc @ [full_summary]" total' calls1] l1
        show ?thesis
          by (simp add: s Inr g a)
      qed
    qed
  qed
qed

lemma summarize_chunks_Inr:
  assumes "summarize_chunks self job config chunks acc total_tokens calls
             = (calls', Inr (acc', total'))"
  shows "calls' = calls @ map (\<lambda>c. build_prompt job c config) chunks
         \<and> acc' = acc @ map (call_summary self job config calls')
                            [length calls ..< length calls + length chunks]
         \<and> total' = total_tokens + sum_list (map (usage self calls')
                            [length calls ..< length calls + length chunks])"
  using assms
proof (induction chunks arbitrary: acc total_tokens calls)
  case Nil
  then show ?case by simp
next
  case (Cons chunk rest)
  let ?p = "build_prompt job chunk config"
  from Cons.prems obtain calls1 chunk_summary full_summary total1 where
    s: "single_document_summary self job chunk config calls = (calls1, Inr chunk_summary)" and
    g: "py_getitem chunk_summary ''full_summary'' = Inr full_summary" and
    a: "add_tokens_used total_tokens chunk_summary = Inr total1" and
    r: "summarize_chunks self job config rest (acc @ [full_summary]) total1 calls1
          = (calls', Inr (acc', total'))"
    by (auto split: sum.splits prod.splits)
  note facts = single_document_summary_Inr [OF s]
  have c1: "calls1 = calls @ [?p]" by (rule facts(1))
  from facts(2) [of total_tokens] a
  have t1: "total1 = total_tokens + usage self calls1 (length calls)" by simp
  from facts(3) [OF g]
  have f1: "full_summary = call_summary self job config calls1 (length calls)" .
  from Cons.IH [OF r] have
    ih1: "calls' = calls1 @ map (\<lambda>c. build_prompt job c config) rest" and
    ih2: "acc' = (acc @ [full_summary]) @ map (call_summary self job config calls')
                     [length calls1 ..< length calls1 + length rest]" and
    ih3: "total' = total1 + sum_list (map (usage self calls')
                     [length calls1 ..< length calls1 + length rest])"
    by simp_all
  have l1: "length calls1 = Suc (length calls)" using c1 by simp
  have u: "usage self calls' (length calls) = usage self calls1 (length calls)"
    unfolding ih1 by (rule usage_append) (simp add: l1)
  have cs: "call_summary self job config calls' (length calls)
              = call_summary self job config calls1 (length calls)"
    unfolding ih1 by (rule call_summary_append) (simp add: l1)
  have upt: "[length calls ..< length calls + length (chunk # rest)]
               = length calls # [length calls1 ..< length calls1 + length rest]"
    by (subst upt_rec) (simp add: l1)
  have "calls' = calls @ map (\<lambda>c. build_prompt job c config) (chunk # rest)"
    using ih1 c1 by simp
  moreover have "acc' = acc @ map (call_summary self job config calls')
                     (length calls # [length calls1 ..< length calls1 + length rest])"
    using ih2 f1 cs by simp
  moreover have "total' = total_tokens + sum_list (map (usage self calls')
                     (length calls # [length calls1 ..< length calls1 + length rest]))"
    using ih3 t1 u by simp
  ultimately show ?case
    unfolding upt by blast
qed


lemma strs_of_Inr: "strs_of i items = Inr ss \<Longrightarrow> ss = map str_of items"
  by (induction i items arbitrary: ss rule: strs_of.induct)
     (auto simp: str_of_def split: sum.splits)

lemma py_join_Inr: "py_join sep items = Inr s \<Longrightarrow> s = join sep (map str_of items)"
  by (auto simp: py_join_def split: sum.splits dest: strs_of_Inr)

lemma add_tokens_used_dict_set:
  "add_tokens_used total_tokens (JDict (dict_set kvs ''tokens_used'' (JInt n)))
     = Inr (total_tokens + n)"
  by (simp add: add_tokens_used_def map_of_dict_set)

lemma multi_document_synthesis_Inr:
  assumes "multi_document_synthesis self job chunks config calls = (calls', Inr d)"
  shows "calls' = calls @ map (\<lambda>c. build_prompt job c config) chunks
           @ [build_prompt job
                (join ''\<newline>\<newline>''
                   (map str_of (map (call_summary self job config calls')
                      [length calls ..< length calls + length chunks])))
                config]"
    and "add_tokens_used 0 d
          = Inr (sum_list (map (usage self calls')
                   [length calls ..< length calls + length chunks + 1]))"
proof -
  from assms obtain calls1 acc total1 combined final sum_tokens where
    m: "summarize_chunks self job config chunks [] 0 calls = (calls1, Inr (acc, total1))" and
    j: "py_join ''\<newline>\<newline>'' acc = Inr combined" and
    s: "single_document_summary self job combined config calls1 = (calls', Inr final)" and
    a: "add_tokens_used total1 final = Inr sum_tokens" and
    d: "py_setitem final ''tokens_used'' (JInt sum_tokens) = Inr d"
    by (auto simp: multi_document_synthesis_def split: sum.splits prod.splits)
  let ?n = "length chunks" and ?l = "length calls"
  from summarize_chunks_Inr [OF m] have
    c1: "calls1 = calls @ map (\<lambda>c. build_prompt job c config) chunks" and
    acc: "acc = map (call_summary self job config calls1) [?l ..< ?l + ?n]" and
    t1: "total1 = sum_list (map (usage self calls1) [?l ..< ?l + ?n])"
    by simp_all
  have l1: "length calls1 = ?l + ?n" using c1 by simp
  note facts = single_document_summary_Inr [OF s]
  have c': "calls' = calls1 @ [build_prompt job combined config]" by (rule facts(1))
  have acc': "acc = map (call_summary self job config calls') [?l ..< ?l + ?n]"
    unfolding acc c' by (rule map_cong) (simp_all add: call_summary_append l1)
  have t1': "total1 = sum_list (map (usage self calls') [?l ..< ?l + ?n])"
    unfolding t1 c'
    by (rule arg_cong [where f = sum_list], rule map_cong) (simp_all add: usage_append l1)
  from j have comb: "combined = join ''\<newline>\<newline>'' (map str_of acc)"
    by (rule py_join_Inr)
  show "calls' = calls @ map (\<lambda>c. build_prompt job c config) chunks
           @ [build_prompt job
                (join ''\<newline>\<newline>''
                   (map str_of (map (call_summary self job config calls')
                      [?l ..< ?l + ?n])))
                config]"
    using c' c1 comb acc' by simp
  from facts(2) [of total1] a
  have st: "sum_tokens = total1 + usage self calls' (?l + ?n)" by (simp add: l1)
  from d obtain kvs where "d = JDict (dict_set kvs ''tokens_used'' (JInt sum_tokens))"
    by (rule py_setitem_Inr)
  then have "add_tokens_used 0 d = Inr sum_tokens"
    by (simp add: add_tokens_used_dict_set)
  also have "sum_tokens = sum_list (map (usage self calls') [?l ..< ?l + ?n + 1])"
    using st t1' by simp
  finally show "add_tokens_used 0 d
          = Inr (sum_list (map (usage self calls') [?l ..< ?l + ?n + 1]))" .
qed

lemma multi_document_synthesis_length:
  "length (fst (multi_document_synthesis self job chunks config calls))
     \<le> length calls + length chunks + 1"
proof -
  obtain calls1 r where m: "summarize_chunks self job config chunks [] 0 calls = (calls1, r)"
    by (cases "summarize_chunks self job config chunks [] 0 calls")
  with summarize_chunks_length [of self job config chunks "[]" 0 calls]
  have l1: "length calls1 \<le> length calls + length chunks" by simp
  have l2: "length x = Suc (length calls1)"
    if "single_document_summary self job c config calls1 = (x, y)" for c x y
    using single_document_summary_calls [of self job c config calls1] that by simp
  show ?thesis
    using l1
    by (auto simp: multi_document_synthesis_def m split: sum.splits prod.splits dest!: l2)
qed

lemma get_stakeholder_config_executive:
  "map_of STAKEHOLDER_PROMPTS ''executive'' = Some executive_config"
  by (simp add: STAKEHOLDER_PROMPTS_def executive_config_def)

lemma get_stakeholder_config_total:
  "get_stakeholder_config role
     = Inr (case map_of STAKEHOLDER_PROMPTS role of None \<Rightarrow> executive_config | Some c \<Rightarrow> c)"
  by (simp add: get_stakeholder_config_def get_stakeholder_config_executive)

lemma generate_with_langchain_Inr:
  assumes run: "generate_with_langchain self job contexts calls
                  = (calls', Inr (summary_data, tokens))"
      and cfg: "get_stakeholder_config (stakeholder_role job) = Inr config"
  shows "length (split_text self (combine_document_texts contexts)) \<le> 1 \<Longrightarrow>
           calls' = calls @ [build_prompt job (combine_document_texts contexts) config]
           \<and> tokens = usage self calls' (length calls)"
    and "1 < length (split_text self (combine_document_texts contexts)) \<Longrightarrow>
           calls' = calls
             @ map (\<lambda>c. build_prompt job c config)
                 (split_text self (combine_document_texts contexts))
             @ [build_prompt job
                  (join ''\<newline>\<newline>''
                     (map str_of (map (call_summary self job config calls')
                        [length calls ..< length calls
                           + length (split_text self (combine_document_texts contexts))])))
                  config]
           \<and> tokens = sum_list (map (usage self calls')
                 [length calls ..< length calls
                    + length (split_text self (combine_document_texts contexts)) + 1])"
proof -
  let ?text = "combine_document_texts contexts"
  let ?chunks = "split_text self ?text"
  show "calls' = calls @ [build_prompt job ?text config]
           \<and> tokens = usage self calls' (length calls)"
    if "length ?chunks \<le> 1"
  proof -
    from run cfg that have
      s: "single_document_summary self job ?text config calls = (calls', Inr summary_data)" and
      a: "add_tokens_used 0 summary_data = Inr tokens"
      by (auto simp: generate_with_langchain_def Let_def split: sum.splits prod.splits)
    from single_document_summary_Inr(1) [OF s] single_document_summary_Inr(2) [OF s, of 0] a
    show ?thesis by simp
  qed
  show "calls' = calls @ map (\<lambda>c. build_prompt job c config) ?chunks
             @ [build_prompt job
                  (join ''\<newline>\<newline>''
                     (map str_of (map (call_summary self job config calls')
                        [length calls ..< length calls + length ?chunks])))
                  config]
           \<and> tokens = sum_list (map (usage self calls')
                 [length calls ..< length calls + length ?chunks + 1])"
    if "1 < length ?chunks"
  proof -
    from run cfg that have
      m: "multi_document_synthesis self job ?chunks config calls = (calls', Inr summary_data)" and
      a: "add_tokens_used 0 summary_data = Inr tokens"
      by (auto simp: generate_with_langchain_def Let_def split: sum.splits prod.splits)
    from multi_document_synthesis_Inr(1) [OF m] multi_document_synthesis_Inr(2) [OF m] a
    show ?thesis by simp
  qed
qed

section \<open>The examples, evaluated\<close>

lemmas response_defs =
  garbage_response_def long_response_def ok_response_def seven_response_def
  untitled_response_def spec_response_def

lemma sample_loads_garbage:
  "sample_loads garbage_response
     = Inl (JSONDecodeError ''Expecting value: line 1 column 1 (char 0)'')"
  by (simp add: sample_loads_def sample_texts_def)

lemma sample_loads_long:
  "sample_loads long_response
     = Inr (JDict [(''full_summary'', JStr long_summary), (''sections'', JList [])])"
  by (simp add: sample_loads_def sample_texts_def response_defs)

lemma sample_loads_ok:
  "sample_loads ok_response
     = Inr (JDict [(''sections'', JList []), (''full_summary'', JStr ''ok'')])"
  by (simp add: sample_loads_def sample_texts_def response_defs)

lemma sample_loads_seven:
  "sample_loads seven_response
     = Inr (JDict [(''sections'', JList []), (''full_summary'', JInt 7)])"
  by (simp add: sample_loads_def sample_texts_def response_defs)

lemma sample_loads_untitled:
  "sample_loads untitled_response
     = Inr (JDict [(''sections'', JList [JDict [(''content'', JStr ''c'')]]),
                   (''full_summary'', JStr ''s'')])"
  by (simp add: sample_loads_def sample_texts_def response_defs)

lemma sample_loads_spec:
  "sample_loads spec_response
     = Inr (JDict [(''sections'',
                       JList [JDict [(''title'', JStr ''A''), (''content'', JStr ''c''),
                                     (''key_points'', JList [JStr ''k'']),
                                     (''evidence_ids'', JList [])]]),
                    (''full_summary'', JStr ''s'')])"
  by (simp add: sample_loads_def sample_texts_def response_defs)

lemma sample_loads_number: "sample_loads ''7'' = Inr (JInt 7)"
  by (simp add: sample_loads_def sample_texts_def response_defs)

lemmas sample_loads_simps =
  sample_loads_garbage sample_loads_long sample_loads_ok sample_loads_seven
  sample_loads_untitled sample_loads_spec sample_loads_number

lemma fallback_raises: "fallback response config doc_ids = Inl (NameError ''job'')"
  by (simp add: fallback_def fallback_full_summary_def job_in_scope_def)

lemma parse_constant_service:
  "parse_llm_response (constant_service r t) response config doc_ids
     = (case try_json (constant_service r t) response of
          Inl e \<Rightarrow> Inl e | Inr (Some data) \<Rightarrow> Inr data | Inr None \<Rightarrow> Inl (NameError ''job''))"
  by (simp add: parse_llm_response_def fallback_raises split: sum.splits option.splits)

lemma try_json_samples:
  "try_json (constant_service r t) garbage_response = Inr None"
  "try_json (constant_service r t) long_response
     = Inr (Some (JDict [(''full_summary'', JStr long_summary), (''sections'', JList [])]))"
  "try_json (constant_service r t) ok_response
     = Inr (Some (JDict [(''sections'', JList []), (''full_summary'', JStr ''ok'')]))"
  "try_json (constant_service r t) seven_response
     = Inr (Some (JDict [(''sections'', JList []), (''full_summary'', JInt 7)]))"
  "try_json (constant_service r t) untitled_response
     = Inr (Some (JDict [(''sections'', JList [JDict [(''content'', JStr ''c'')]]),
                   (''full_summary'', JStr ''s'')]))"
  by (simp_all add: try_json_def constant_service_def sample_loads_simps)


lemma single_constant_service:
  "single_document_summary (constant_service r t) job content config calls
     = (calls @ [build_prompt job content config],
        case try_json (constant_service r t) r of
          Inl e \<Rightarrow> Inl e
        | Inr None \<Rightarrow> Inl (NameError ''job'')
        | Inr (Some data) \<Rightarrow> py_setitem data ''tokens_used'' (JInt t))"
proof -
  have l: "llm (constant_service r t) k p = Inr (r, t)" for k p
    by (simp add: constant_service_def)
  show ?thesis
    unfolding single_document_summary_def Let_def l
    by (simp add: parse_constant_service split: sum.splits option.splits)
qed

lemma multi_long_two:
  "multi_document_synthesis (constant_service long_response 10) sample_job
       [''part one'', ''part two''] finance_config []
   = ([build_prompt sample_job ''part one'' finance_config,
       build_prompt sample_job ''part two'' finance_config,
       build_prompt sample_job (long_summary @ ''\<newline>\<newline>'' @ long_summary) finance_config],
      Inr (JDict [(''full_summary'', JStr long_summary), (''sections'', JList []),
                  (''tokens_used'', JInt 30)]))"
  by (simp add: multi_document_synthesis_def single_constant_service try_json_samples
        add_tokens_used_def py_join_def)

section \<open>The response parser's fallback\<close>

text \<open>
  Claim C1 says that the fallback path of the response parser, taken when the strict
  JSON decode fails or the decoded object lacks the key \<^verbatim>\<open>sections\<close> or
  \<^verbatim>\<open>full_summary\<close>, returns a structured summary and never raises. In the code the
  fallback reads the unbound name \<^verbatim>\<open>job\<close>: whenever the fallback path is taken, for
  every response text, profile and list of document ids, the parser raises
  \<^verbatim>\<open>NameError\<close>.
\<close>

theorem parse_fallback_always_raises:
  assumes "(\<exists>m. json_loads self response = Inl (JSONDecodeError m))
           \<or> (\<exists>kvs. json_loads self response = Inr (JDict kvs)
                 \<and> (map_of kvs ''sections'' = None \<or> map_of kvs ''full_summary'' = None))"
  shows "parse_llm_response self response config doc_ids = Inl (NameError ''job'')"
proof -
  from assms have "try_json self response = Inr None"
    by (auto simp: try_json_def split: bool.splits)
  then show ?thesis
    by (simp add: parse_llm_response_def fallback_raises)
qed

theorem parse_fallback_always_raises_witness:
  "json_loads (constant_service [] 0) garbage_response
     = Inl (JSONDecodeError ''Expecting value: line 1 column 1 (char 0)'')
   \<and> parse_llm_response (constant_service [] 0) garbage_response executive_config
         [''doc1'', ''doc2''] = Inl (NameError ''job'')"
  using parse_fallback_always_raises [of "constant_service [] 0" garbage_response
          executive_config "[''doc1'', ''doc2'']"]
  by (simp add: constant_service_def sample_loads_garbage)

section \<open>The reduce pass\<close>

text \<open>
  Claim C5 says that a reduce-phase input that does not fit in one chunk window is
  chunked and reduced again, recursively, under a maximum-depth cutoff that raises a
  fatal error. The code has one reduce pass and no recursion. As amended: multi-chunk
  synthesis on \<open>N\<close> chunks issues at most \<open>N + 1\<close> model invocations in every run. When
  the map phase succeeds and the chunk summaries join, the reduce step is exactly one
  further invocation whose content is the whole concatenation of the chunk summaries,
  whatever its length. When the map phase succeeds and the join raises, the run raises
  that exception without a reduce invocation.
\<close>

theorem reduce_pass_single_invocation:
  "length (fst (multi_document_synthesis self job chunks config calls))
     \<le> length calls + length chunks + 1
   \<and> (\<forall>calls1 chunk_summaries total_tokens combined.
         summarize_chunks self job config chunks [] 0 calls
           = (calls1, Inr (chunk_summaries, total_tokens))
         \<and> py_join ''\<newline>\<newline>'' chunk_summaries = Inr combined
         \<longrightarrow> fst (multi_document_synthesis self job chunks config calls)
               = calls1 @ [build_prompt job combined config])
   \<and> (\<forall>calls1 chunk_summaries total_tokens e.
         summarize_chunks self job config chunks [] 0 calls
           = (calls1, Inr (chunk_summaries, total_tokens))
         \<and> py_join ''\<newline>\<newline>'' chunk_summaries = Inl e
         \<longrightarrow> multi_document_synthesis self job chunks config calls = (calls1, Inl e))"
proof (intro conjI allI impI)
  show "length (fst (multi_document_synthesis self job chunks config calls))
          \<le> length calls + length chunks + 1"
    by (rule multi_document_synthesis_length)
next
  fix calls1 chunk_summaries total_tokens combined
  assume "summarize_chunks self job config chunks [] 0 calls
            = (calls1, Inr (chunk_summaries, total_tokens))
          \<and> py_join ''\<newline>\<newline>'' chunk_summaries = Inr combined"
  then have "fst (multi_document_synthesis self job chunks config calls)
               = fst (single_document_summary self job combined config calls1)"
    by (auto simp: multi_document_synthesis_def split: sum.splits prod.splits)
  then show "fst (multi_document_synthesis self job chunks config calls)
               = calls1 @ [build_prompt job combined config]"
    by (simp add: single_document_summary_calls)
next
  fix calls1 chunk_summaries total_tokens e
  assume "summarize_chunks self job config chunks [] 0 calls
            = (calls1, Inr (chunk_summaries, total_tokens))
          \<and> py_join ''\<newline>\<newline>'' chunk_summaries = Inl e"
  then show "multi_document_synthesis self job chunks config calls = (calls1, Inl e)"
    by (simp add: multi_document_synthesis_def)
qed

lemma summarize_ok_two:
  "summarize_chunks (constant_service ok_response 5) sample_job finance_config
       [''part one'', ''part two''] [] 0 []
     = ([build_prompt sample_job ''part one'' finance_config,
         build_prompt sample_job ''part two'' finance_config],
        Inr ([JStr ''ok'', JStr ''ok''], 10))"
  by (simp add: single_constant_service try_json_samples add_tokens_used_def)

lemma summarize_seven_two:
  "summarize_chunks (constant_service seven_response 5) sample_job finance_config
       [''part one'', ''part two''] [] 0 []
     = ([build_prompt sample_job ''part one'' finance_config,
         build_prompt sample_job ''part two'' finance_config],
        Inr ([JInt 7, JInt 7], 10))"
  by (simp add: single_constant_service try_json_samples add_tokens_used_def)

theorem reduce_pass_single_invocation_witness:
  "summarize_chunks (constant_service ok_response 5) sample_job finance_config
       [''part one'', ''part two''] [] 0 []
     = ([build_prompt sample_job ''part one'' finance_config,
         build_prompt sample_job ''part two'' finance_config],
        Inr ([JStr ''ok'', JStr ''ok''], 10))
   \<and> py_join ''\<newline>\<newline>'' [JStr ''ok'', JStr ''ok''] = Inr ''ok\<newline>\<newline>ok''
   \<and> fst (multi_document_synthesis (constant_service ok_response 5) sample_job
             [''part one'', ''part two''] finance_config [])
       = [build_prompt sample_job ''part one'' finance_config,
          build_prompt sample_job ''part two'' finance_config,
          build_prompt sample_job ''ok\<newline>\<newline>ok'' finance_config]
   \<and> summarize_chunks (constant_service seven_response 5) sample_job finance_config
         [''part one'', ''part two''] [] 0 []
       = ([build_prompt sample_job ''part one'' finance_config,
           build_prompt sample_job ''part two'' finance_config],
          Inr ([JInt 7, JInt 7], 10))
   \<and> py_join ''\<newline>\<newline>'' [JInt 7, JInt 7]
       = Inl (TypeError ''sequence item 0: expected str instance, int found'')
   \<and> multi_document_synthesis (constant_service seven_response 5) sample_job
         [''part one'', ''part two''] finance_config []
       = ([build_prompt sample_job ''part one'' finance_config,
           build_prompt sample_job ''part two'' finance_config],
          Inl (TypeError ''sequence item 0: expected str instance, int found''))"
proof -
  have j: "py_join ''\<newline>\<newline>'' [JStr ''ok'', JStr ''ok''] = Inr ''ok\<newline>\<newline>ok''"
    by (simp add: py_join_def)
  have j7: "py_join ''\<newline>\<newline>'' [JInt 7, JInt 7]
              = Inl (TypeError ''sequence item 0: expected str instance, int found'')"
    by (simp add: py_join_def str_nat.simps)
  from reduce_pass_single_invocation
         [of "constant_service ok_response 5" sample_job "[''part one'', ''part two'']"
             finance_config "[]"]
       summarize_ok_two j
  have ok: "fst (multi_document_synthesis (constant_service ok_response 5) sample_job
             [''part one'', ''part two''] finance_config [])
       = [build_prompt sample_job ''part one'' finance_config,
          build_prompt sample_job ''part two'' finance_config,
          build_prompt sample_job ''ok\<newline>\<newline>ok'' finance_config]"
    by simp
  from reduce_pass_single_invocation
         [of "constant_service seven_response 5" sample_job "[''part one'', ''part two'']"
             finance_config "[]"]
       summarize_seven_two j7
  have seven: "multi_document_synthesis (constant_service seven_response 5) sample_job
         [''part one'', ''part two''] finance_config []
       = ([build_prompt sample_job ''part one'' finance_config,
           build_prompt sample_job ''part two'' finance_config],
          Inl (TypeError ''sequence item 0: expected str instance, int found''))"
    by blast
  from summarize_ok_two j ok summarize_seven_two j7 seven show ?thesis
    by simp
qed

theorem oversized_reduce_input_counterexample:
  "chunk_size
     < length (p_content (last (fst (multi_document_synthesis
           (constant_service long_response 10) sample_job
           [''part one'', ''part two''] finance_config []))))
   \<and> length (fst (multi_document_synthesis (constant_service long_response 10) sample_job
           [''part one'', ''part two''] finance_config [])) = 3
   \<and> snd (multi_document_synthesis (constant_service long_response 10) sample_job
           [''part one'', ''part two''] finance_config [])
       = Inr (JDict [(''full_summary'', JStr long_summary), (''sections'', JList []),
                     (''tokens_used'', JInt 30)])"
  by (simp add: multi_long_two build_prompt_def chunk_size_def long_summary_def)

section \<open>Invocations and token accounting of the synthesizer\<close>


lemma strs_of_all_str:
  "\<forall>v \<in> set items. \<exists>s. v = JStr s \<Longrightarrow> \<exists>ss. strs_of i items = Inr ss"
proof (induction items arbitrary: i)
  case Nil
  show ?case by simp
next
  case (Cons v rest)
  then obtain s where v: "v = JStr s" by auto
  from Cons obtain ss where "strs_of (Suc i) rest = Inr ss" by fastforce
  with v show ?case by simp
qed

lemma single_document_summary_well_behaved:
  assumes wb: "\<forall>k p. \<exists>response tokens kvs s.
                 llm self k p = Inr (response, tokens)
                 \<and> json_loads self response = Inr (JDict kvs)
                 \<and> map_of kvs ''sections'' \<noteq> None
                 \<and> map_of kvs ''full_summary'' = Some (JStr s)"
  shows "\<exists>calls' kvs s. single_document_summary self job content config calls
                          = (calls', Inr (JDict kvs))
                        \<and> map_of kvs ''full_summary'' = Some (JStr s)
                        \<and> (\<exists>n. map_of kvs ''tokens_used'' = Some (JInt n))"
proof -
  let ?p = "build_prompt job content config"
  from wb obtain response tokens kvs s where
    l: "llm self (length calls) ?p = Inr (response, tokens)" and
    j: "json_loads self response = Inr (JDict kvs)" and
    k1: "map_of kvs ''sections'' \<noteq> None" and
    k2: "map_of kvs ''full_summary'' = Some (JStr s)"
    by blast
  from j k1 k2 have "try_json self response = Inr (Some (JDict kvs))"
    by (auto simp: try_json_def)
  then have "parse_llm_response self response config (document_ids job) = Inr (JDict kvs)"
    by (simp add: parse_llm_response_def)
  with l have "single_document_summary self job content config calls
                 = (calls @ [?p], Inr (JDict (dict_set kvs ''tokens_used'' (JInt tokens))))"
    by (simp add: single_document_summary_def Let_def)
  moreover have "map_of (dict_set kvs ''tokens_used'' (JInt tokens)) ''full_summary''
                   = Some (JStr s)"
    using k2 by (simp add: map_of_dict_set)
  moreover have "map_of (dict_set kvs ''tokens_used'' (JInt tokens)) ''tokens_used''
                   = Some (JInt tokens)"
    by (simp add: map_of_dict_set)
  ultimately show ?thesis by blast
qed

lemma summarize_chunks_well_behaved:
  assumes wb: "\<forall>k p. \<exists>response tokens kvs s.
                 llm self k p = Inr (response, tokens)
                 \<and> json_loads self response = Inr (JDict kvs)
                 \<and> map_of kvs ''sections'' \<noteq> None
                 \<and> map_of kvs ''full_summary'' = Some (JStr s)"
      and acc: "\<forall>v \<in> set acc. \<exists>s. v = JStr s"
  shows "\<exists>calls' acc' total'.
           summarize_chunks self job config chunks acc total_tokens calls
             = (calls', Inr (acc', total'))
           \<and> (\<forall>v \<in> set acc'. \<exists>s. v = JStr s)"
  using acc
proof (induction chunks arbitrary: acc total_tokens calls)
  case Nil
  then show ?case by simp
next
  case (Cons chunk rest)
  from single_document_summary_well_behaved [OF wb, of job chunk config calls]
  obtain calls1 kvs s n where
    s: "single_document_summary self job chunk config calls = (calls1, Inr (JDict kvs))" and
    f: "map_of kvs ''full_summary'' = Some (JStr s)" and
    t: "map_of kvs ''tokens_used'' = Some (JInt n)"
    by blast
  from Cons.prems have "\<forall>v \<in> set (acc @ [JStr s]). \<exists>s. v = JStr s" by simp
  from Cons.IH [OF this, of "total_tokens + n" calls1]
  obtain calls' acc' total' where
    "summarize_chunks self job config rest (acc @ [JStr s]) (total_tokens + n) calls1
       = (calls', Inr (acc', total'))"
    and "\<forall>v \<in> set acc'. \<exists>s. v = JStr s"
    by blast
  with s f t show ?case
    by (simp add: add_tokens_used_def)
qed

lemma generate_with_langchain_well_behaved:
  assumes wb: "\<forall>k p. \<exists>response tokens kvs s.
                 llm self k p = Inr (response, tokens)
                 \<and> json_loads self response = Inr (JDict kvs)
                 \<and> map_of kvs ''sections'' \<noteq> None
                 \<and> map_of kvs ''full_summary'' = Some (JStr s)"
  shows "\<exists>calls' summary_data tokens.
           generate_with_langchain self job contexts calls
             = (calls', Inr (summary_data, tokens))"
proof -
  obtain config where cfg: "get_stakeholder_config (stakeholder_role job) = Inr config"
    by (simp add: get_stakeholder_config_total)
  let ?text = "combine_document_texts contexts"
  let ?chunks = "split_text self ?text"
  have multi: "\<exists>calls' kvs n. multi_document_synthesis self job ?chunks config calls
                               = (calls', Inr (JDict kvs))
                             \<and> map_of kvs ''tokens_used'' = Some (JInt n)"
  proof -
    from summarize_chunks_well_behaved [OF wb, of "[]" job config ?chunks 0 calls]
    obtain calls1 acc total1 where
      m: "summarize_chunks self job config ?chunks [] 0 calls = (calls1, Inr (acc, total1))" and
      a: "\<forall>v \<in> set acc. \<exists>s. v = JStr s"
      by auto
    from strs_of_all_str [OF a, of 0] obtain combined where
      j: "py_join ''\<newline>\<newline>'' acc = Inr combined"
      by (auto simp: py_join_def)
    from single_document_summary_well_behaved [OF wb, of job combined config calls1]
    obtain calls2 kvs s n where
      s: "single_document_summary self job combined config calls1 = (calls2, Inr (JDict kvs))" and
      t: "map_of kvs ''tokens_used'' = Some (JInt n)"
      by blast
    from m j s t have
      "multi_document_synthesis self job ?chunks config calls
         = (calls2, Inr (JDict (dict_set kvs ''tokens_used'' (JInt (total1 + n)))))"
      by (simp add: multi_document_synthesis_def add_tokens_used_def)
    moreover have "map_of (dict_set kvs ''tokens_used'' (JInt (total1 + n))) ''tokens_used''
                     = Some (JInt (total1 + n))"
      by (simp add: map_of_dict_set)
    ultimately show ?thesis by blast
  qed
  from single_document_summary_well_behaved [OF wb, of job ?text config calls]
  have single: "\<exists>calls' kvs n. single_document_summary self job ?text config calls
                               = (calls', Inr (JDict kvs))
                             \<and> map_of kvs ''tokens_used'' = Some (JInt n)"
    by blast
  show ?thesis
  proof (cases "1 < length ?chunks")
    case True
    from multi obtain calls' kvs n where
      "multi_document_synthesis self job ?chunks config calls = (calls', Inr (JDict kvs))"
      "map_of kvs ''tokens_used'' = Some (JInt n)"
      by blast
    with True cfg show ?thesis
      by (simp add: generate_with_langchain_def Let_def add_tokens_used_def)
  next
    case False
    from single obtain calls' kvs n where
      "single_document_summary self job ?text config calls = (calls', Inr (JDict kvs))"
      "map_of kvs ''tokens_used'' = Some (JInt n)"
      by blast
    with False cfg show ?thesis
      by (simp add: generate_with_langchain_def Let_def add_tokens_used_def)
  qed
qed












section \<open>The job lifecycle controller\<close>

lemma create_sections_tables:
  "summaries (fst (create_sections sid items i d)) = summaries d"
  "status_writes (fst (create_sections sid items i d)) = status_writes d"
  by (induction items arbitrary: i d) (auto split: sum.splits)

lemma create_summary_records_summaries:
  assumes "create_summary_records job summary_data d = (d', r)"
  shows "summaries d' = summaries d
         \<or> (\<exists>s. summaries d' = summaries d @ [s] \<and> gs_job_id s = job_id job)"
proof -
  have cs: "summaries d2 = summaries d1" if "create_sections sid items i d1 = (d2, r2)"
    for sid items i d1 d2 r2
    using create_sections_tables(1) [of sid items i d1] that by simp
  from assms show ?thesis
    by (auto simp: create_summary_records_def Let_def
          split: sum.splits if_splits prod.splits dest!: cs)
qed

lemma create_summary_records_status_writes:
  assumes "create_summary_records job summary_data d = (d', r)"
  shows "status_writes d' = status_writes d"
proof -
  have cs: "status_writes d2 = status_writes d1" if "create_sections sid items i d1 = (d2, r2)"
    for sid items i d1 d2 r2
    using create_sections_tables(2) [of sid items i d1] that by simp
  from assms show ?thesis
    by (auto simp: create_summary_records_def Let_def
          split: sum.splits if_splits prod.splits dest!: cs)
qed

lemma fetch_document_contexts_tables:
  "summaries (fst (fetch_document_contexts job d)) = summaries d"
  "summary_sections (fst (fetch_document_contexts job d)) = summary_sections d"
  "status_writes (fst (fetch_document_contexts job d)) = status_writes d"
  by (simp_all add: fetch_document_contexts_def Let_def)

lemma save_job_tables:
  "summaries (save_job job d) = summaries d"
  "summary_sections (save_job job d) = summary_sections d"
  "document_contexts (save_job job d) = document_contexts d"
  "status_writes (save_job job d) = status_writes d @ [(job_id job, status job)]"
  by (simp_all add: save_job_def)

lemma mark_fields:
  "status (mark_processing j) = Processing"
  "job_id (mark_processing j) = job_id j"
  "tokens_used (mark_processing j) = tokens_used j"
  "status (mark_failed j msg now) = Failed"
  "job_id (mark_failed j msg now) = job_id j"
  "error_message (mark_failed j msg now) = Some msg"
  "completed_at (mark_failed j msg now) = Some now"
  "status (mark_completed j m t p now) = Completed"
  "job_id (mark_completed j m t p now) = job_id j"
  "completed_at (mark_completed j m t p now) = Some now"
  by (simp_all add: mark_processing_def mark_failed_def mark_completed_def Let_def)

text \<open>The three ways a run of the controller ends, by the outcome of its stages.\<close>

lemma generate_summary_synthesis_raises:
  assumes "synthesis_stage self job d calls = (calls', Inl e)"
  shows "generate_summary self job d calls start_time end_time now
           = (mark_failed (mark_processing job) (str_error e) now,
              save_job (mark_failed (mark_processing job) (str_error e) now)
                (fst (fetch_document_contexts (mark_processing job)
                        (save_job (mark_processing job) d))),
              calls', Inl e)"
  using assms
  by (simp add: generate_summary_def synthesis_stage_def Let_def case_prod_beta)

lemma generate_summary_records_raise:
  assumes "synthesis_stage self job d calls = (calls', Inr (summary_data, tokens))"
      and "record_stage job summary_data d = (d2, Inl e)"
  shows "generate_summary self job d calls start_time end_time now
           = (mark_failed (mark_processing job) (str_error e) now,
              save_job (mark_failed (mark_processing job) (str_error e) now) d2,
              calls', Inl e)"
  using assms
  by (simp add: generate_summary_def synthesis_stage_def record_stage_def Let_def
        case_prod_beta)

lemma generate_summary_returns:
  assumes "synthesis_stage self job d calls = (calls', Inr (summary_data, tokens))"
      and "record_stage job summary_data d = (d2, Inr summary)"
  shows "generate_summary self job d calls start_time end_time now
           = (mark_completed (mark_processing job) (model_name self) (Some tokens)
                (Some (end_time - start_time)) now,
              save_job (mark_completed (mark_processing job) (model_name self) (Some tokens)
                (Some (end_time - start_time)) now) d2,
              calls', Inr summary)"
  using assms
  by (simp add: generate_summary_def synthesis_stage_def record_stage_def Let_def
        case_prod_beta)

lemma record_stage_tables:
  assumes "record_stage job summary_data d = (d2, r)"
  shows "summaries d2 = summaries d
         \<or> (\<exists>s. summaries d2 = summaries d @ [s] \<and> gs_job_id s = job_id job)"
    and "status_writes d2 = status_writes d @ [(job_id job, Processing)]"
proof -
  let ?d1 = "fst (fetch_document_contexts (mark_processing job)
                    (save_job (mark_processing job) d))"
  from assms have c: "create_summary_records (mark_processing job) summary_data ?d1 = (d2, r)"
    by (simp add: record_stage_def)
  have s1: "summaries ?d1 = summaries d"
    by (simp add: fetch_document_contexts_tables save_job_tables)
  have w1: "status_writes ?d1 = status_writes d @ [(job_id job, Processing)]"
    by (simp add: fetch_document_contexts_tables save_job_tables mark_fields)
  from create_summary_records_summaries [OF c] s1
  show "summaries d2 = summaries d
         \<or> (\<exists>s. summaries d2 = summaries d @ [s] \<and> gs_job_id s = job_id job)"
    by (simp add: mark_fields)
  from create_summary_records_status_writes [OF c] w1
  show "status_writes d2 = status_writes d @ [(job_id job, Processing)]"
    by simp
qed

lemma fetched_tables:
  "summaries (fst (fetch_document_contexts (mark_processing job)
                     (save_job (mark_processing job) d))) = summaries d"
  "summary_sections (fst (fetch_document_contexts (mark_processing job)
                     (save_job (mark_processing job) d))) = summary_sections d"
  "status_writes (fst (fetch_document_contexts (mark_processing job)
                     (save_job (mark_processing job) d)))
     = status_writes d @ [(job_id job, Processing)]"
  by (simp_all add: fetch_document_contexts_tables save_job_tables mark_fields)



lemma small_job_config:
  "get_stakeholder_config (stakeholder_role (mark_processing small_job)) = Inr finance_config"
  by (simp add: get_stakeholder_config_total small_job_def sample_job_def mark_processing_def
        STAKEHOLDER_PROMPTS_def finance_config_def)

lemma small_job_text: "length (combine_document_texts small_contexts) \<le> 100"
  by (simp add: small_contexts_def combine_document_texts_def fetch_document_contexts_def
        small_job_def sample_job_def Let_def)

lemma split_text_services:
  "split_text (constant_service r t) = two_way_split 100"
  "split_text (failing_service m) = two_way_split 100"
  by (simp_all add: constant_service_def failing_service_def)

lemma small_job_chunks:
  "two_way_split 100 (combine_document_texts small_contexts)
     = [combine_document_texts small_contexts]"
  using small_job_text by (simp add: two_way_split_def)

lemma generate_small_constant:
  "generate_with_langchain (constant_service r t) (mark_processing small_job) small_contexts []
     = ([build_prompt (mark_processing small_job) (combine_document_texts small_contexts)
           finance_config],
        case try_json (constant_service r t) r of
          Inl e \<Rightarrow> Inl e
        | Inr None \<Rightarrow> Inl (NameError ''job'')
        | Inr (Some data) \<Rightarrow>
            (case py_setitem data ''tokens_used'' (JInt t) of
               Inl e \<Rightarrow> Inl e
             | Inr summary_data \<Rightarrow>
                 (case add_tokens_used 0 summary_data of
                    Inl e \<Rightarrow> Inl e
                  | Inr tokens \<Rightarrow> Inr (summary_data, tokens))))"
  unfolding generate_with_langchain_def small_job_config split_text_services Let_def
    small_job_chunks
  by (simp add: single_constant_service split: sum.splits option.splits)



lemma try_json_spec:
  "try_json (constant_service r t) spec_response
     = Inr (Some (JDict [(''sections'',
                       JList [JDict [(''title'', JStr ''A''), (''content'', JStr ''c''),
                                     (''key_points'', JList [JStr ''k'']),
                                     (''evidence_ids'', JList [])]]),
                    (''full_summary'', JStr ''s'')]))"
  by (simp add: try_json_def constant_service_def sample_loads_simps)

lemma small_job_fields:
  "job_id (mark_processing small_job) = ''job-1''"
  "project_id (mark_processing small_job) = ''project-1''"
  "stakeholder_role (mark_processing small_job) = ''finance''"
  "tokens_used (mark_processing small_job) = None"
  by (simp_all add: small_job_def sample_job_def mark_processing_def)

lemma model_name_constant_service: "model_name (constant_service r t) = Some ''gpt-4''"
  by (simp add: constant_service_def)

lemma small_job_contexts:
  "snd (fetch_document_contexts (mark_processing small_job) d) = small_contexts"
  by (simp add: small_contexts_def fetch_document_contexts_def Let_def mark_processing_def)

lemma synthesis_stage_small:
  "synthesis_stage self small_job d []
     = generate_with_langchain self (mark_processing small_job) small_contexts []"
  by (simp add: synthesis_stage_def small_job_contexts)



lemma synthesis_spec:
  "synthesis_stage (constant_service spec_response t) small_job empty_db []
     = ([build_prompt (mark_processing small_job) (combine_document_texts small_contexts)
           finance_config],
        Inr (JDict [(''sections'',
                       JList [JDict [(''title'', JStr ''A''), (''content'', JStr ''c''),
                                     (''key_points'', JList [JStr ''k'']),
                                     (''evidence_ids'', JList [])]]),
                    (''full_summary'', JStr ''s''), (''tokens_used'', JInt t)], t))"
  by (simp add: synthesis_stage_small generate_small_constant try_json_spec
        add_tokens_used_def)


lemma fetched_empty:
  "summaries (fst (fetch_document_contexts (mark_processing small_job)
                     (save_job (mark_processing small_job) empty_db))) = []"
  "summary_sections (fst (fetch_document_contexts (mark_processing small_job)
                     (save_job (mark_processing small_job) empty_db))) = []"
  by (simp_all add: fetched_tables empty_db_def)


lemma record_spec:
  "snd (record_stage small_job
          (JDict [(''sections'',
                       JList [JDict [(''title'', JStr ''A''), (''content'', JStr ''c''),
                                     (''key_points'', JList [JStr ''k'']),
                                     (''evidence_ids'', JList [])]]),
                    (''full_summary'', JStr ''s''), (''tokens_used'', JInt t)])
          empty_db)
     = Inr \<lparr>gs_id = ''sum_job-1'', gs_job_id = ''job-1'',
            gs_project_id = ''project-1'', gs_stakeholder_role = ''finance'',
            gs_full_summary = JStr ''s''\<rparr>"
  by (simp add: record_stage_def create_summary_records_def Let_def fetched_empty
        small_job_fields)




text \<open>
  Claim C3, as amended: the transition methods carry no guard on the current status.
  Whatever the status of the job, \<^verbatim>\<open>mark_processing\<close> sets it to \<open>processing\<close>,
  \<^verbatim>\<open>mark_completed\<close> to \<open>completed\<close> and \<^verbatim>\<open>mark_failed\<close> to \<open>failed\<close>. A run of the
  controller writes the status of the job exactly twice, first \<open>processing\<close> and then a
  terminal status, which is also the status the job ends with: \<open>failed\<close> when the run
  raises and \<open>completed\<close> when it returns a summary.
\<close>

theorem transition_methods_set_status_unconditionally:
  "status (mark_processing j) = Processing
   \<and> status (mark_completed j m t p now) = Completed
   \<and> status (mark_failed j msg now) = Failed
   \<and> status (fst (generate_summary self j d calls start_time end_time now))
       = (case snd (snd (snd (generate_summary self j d calls start_time end_time now))) of
            Inl e \<Rightarrow> Failed
          | Inr summary \<Rightarrow> Completed)
   \<and> status_writes (fst (snd (generate_summary self j d calls start_time end_time now)))
       = status_writes d
           @ [(job_id j, Processing),
              (job_id j,
               case snd (snd (snd (generate_summary self j d calls start_time end_time now))) of
                 Inl e \<Rightarrow> Failed
               | Inr summary \<Rightarrow> Completed)]"
proof -
  let ?r = "generate_summary self j d calls start_time end_time now"
  obtain calls' sr where syn: "synthesis_stage self j d calls = (calls', sr)"
    by (cases "synthesis_stage self j d calls")
  have run: "status (fst ?r) = (case snd (snd (snd ?r)) of Inl e \<Rightarrow> Failed
                                | Inr summary \<Rightarrow> Completed)
             \<and> status_writes (fst (snd ?r))
                 = status_writes d
                     @ [(job_id j, Processing),
                        (job_id j, case snd (snd (snd ?r)) of Inl e \<Rightarrow> Failed
                                   | Inr summary \<Rightarrow> Completed)]"
  proof (cases sr)
    case (Inl e)
    from generate_summary_synthesis_raises
           [of self j d calls calls' e start_time end_time now] syn Inl
    show ?thesis
      by (simp add: mark_fields save_job_tables fetched_tables)
  next
    case (Inr pair)
    obtain summary_data tokens where p: "pair = (summary_data, tokens)"
      by (cases pair)
    obtain d2 rr where rec: "record_stage j summary_data d = (d2, rr)"
      by (cases "record_stage j summary_data d")
    note w = record_stage_tables(2) [OF rec]
    show ?thesis
    proof (cases rr)
      case e: (Inl e)
      from generate_summary_records_raise
             [of self j d calls calls' summary_data tokens d2 e start_time end_time now]
           syn Inr p rec e w
      show ?thesis
        by (simp add: mark_fields save_job_tables)
    next
      case s: (Inr summary)
      from generate_summary_returns
             [of self j d calls calls' summary_data tokens d2 summary start_time end_time now]
           syn Inr p rec s w
      show ?thesis
        by (simp add: mark_fields save_job_tables)
    qed
  qed
  then show ?thesis
    by (simp add: mark_fields)
qed

theorem terminal_status_left_counterexample:
  "status (sample_job\<lparr>status := Completed\<rparr>) = Completed
   \<and> status (mark_processing (sample_job\<lparr>status := Completed\<rparr>)) = Processing
   \<and> status (mark_failed (sample_job\<lparr>status := Completed\<rparr>) ''late error'' 9) = Failed
   \<and> status (mark_completed (sample_job\<lparr>status := Failed\<rparr>) None None None 9) = Completed"
  by (simp add: mark_processing_def mark_failed_def mark_completed_def Let_def)

section \<open>Metadata recorded on completion\<close>

lemma generate_summary_Inr:
  assumes run: "generate_summary self job d calls start_time end_time now
                  = (job', d', calls', Inr summary)"
  obtains summary_data tokens where
    "synthesis_stage self job d calls = (calls', Inr (summary_data, tokens))"
    "job' = mark_completed (mark_processing job) (model_name self) (Some tokens)
              (Some (end_time - start_time)) now"
proof -
  obtain calls1 sr where syn: "synthesis_stage self job d calls = (calls1, sr)"
    by (cases "synthesis_stage self job d calls")
  show thesis
  proof (cases sr)
    case (Inl e)
    from generate_summary_synthesis_raises
           [of self job d calls calls1 e start_time end_time now] syn Inl run
    show thesis by simp
  next
    case (Inr pair)
    obtain summary_data tokens where p: "pair = (summary_data, tokens)"
      by (cases pair)
    obtain d2 rr where rec: "record_stage job summary_data d = (d2, rr)"
      by (cases "record_stage job summary_data d")
    show thesis
    proof (cases rr)
      case e: (Inl e)
      from generate_summary_records_raise
             [of self job d calls calls1 summary_data tokens d2 e start_time end_time now]
           syn Inr p rec e run
      show thesis by simp
    next
      case s: (Inr summary1)
      from generate_summary_returns
             [of self job d calls calls1 summary_data tokens d2 summary1 start_time end_time now]
           syn Inr p rec s run
      have "calls1 = calls'"
        and "job' = mark_completed (mark_processing job) (model_name self) (Some tokens)
                      (Some (end_time - start_time)) now"
        by simp_all
      with syn Inr p that show thesis by simp
    qed
  qed
qed

lemma usage_zero:
  assumes "\<forall>k q response tokens. llm self k q = Inr (response, tokens) \<longrightarrow> tokens = 0"
  shows "usage self calls = (\<lambda>k. 0)"
  using assms by (auto simp: usage_def fun_eq_iff split: sum.splits)

lemma generate_with_langchain_zero:
  assumes run: "generate_with_langchain self job contexts calls
                  = (calls', Inr (summary_data, tokens))"
      and zero: "\<forall>k q response tokens. llm self k q = Inr (response, tokens) \<longrightarrow> tokens = 0"
  shows "tokens = 0"
proof -
  obtain config where cfg: "get_stakeholder_config (stakeholder_role job) = Inr config"
    by (simp add: get_stakeholder_config_total)
  note facts = generate_with_langchain_Inr [OF run cfg]
  show ?thesis
  proof (cases "length (split_text self (combine_document_texts contexts)) \<le> 1")
    case True
    from facts(1) [OF True] show ?thesis
      by (simp add: usage_zero [OF zero])
  next
    case False
    then have "1 < length (split_text self (combine_document_texts contexts))" by simp
    from facts(2) [OF this] show ?thesis
      by (simp add: usage_zero [OF zero])
  qed
qed

text \<open>
  Claim C10: \<^verbatim>\<open>mark_completed\<close> always sets the status to \<open>completed\<close> and stamps
  \<^verbatim>\<open>completed_at\<close>, and it leaves a metadata field at its prior value when the
  corresponding argument is falsy: \<^verbatim>\<open>model_used\<close> for \<^verbatim>\<open>None\<close> or the empty string,
  \<^verbatim>\<open>tokens_used\<close> for \<^verbatim>\<open>None\<close> or 0, \<^verbatim>\<open>processing_time\<close> for \<^verbatim>\<open>None\<close> or 0. In
  particular a successful run of the controller in which every model invocation reports
  0 tokens completes the job and leaves its \<^verbatim>\<open>tokens_used\<close> as it was before the run.
\<close>

theorem mark_completed_skips_falsy_metadata:
  "status (mark_completed j m t p now) = Completed
   \<and> completed_at (mark_completed j m t p now) = Some now
   \<and> (m = None \<or> m = Some [] \<longrightarrow> model_used (mark_completed j m t p now) = model_used j)
   \<and> (t = None \<or> t = Some 0 \<longrightarrow> tokens_used (mark_completed j m t p now) = tokens_used j)
   \<and> (p = None \<or> p = Some 0
        \<longrightarrow> processing_time (mark_completed j m t p now) = processing_time j)
   \<and> (generate_summary self job d calls start_time end_time now
          = (job', d', calls', Inr summary)
        \<and> (\<forall>k q response tokens. llm self k q = Inr (response, tokens) \<longrightarrow> tokens = 0)
        \<longrightarrow> status job' = Completed \<and> completed_at job' = Some now
            \<and> tokens_used job' = tokens_used job)"
proof -
  have fields:
    "status (mark_completed j m t p now) = Completed
     \<and> completed_at (mark_completed j m t p now) = Some now
     \<and> (m = None \<or> m = Some [] \<longrightarrow> model_used (mark_completed j m t p now) = model_used j)
     \<and> (t = None \<or> t = Some 0 \<longrightarrow> tokens_used (mark_completed j m t p now) = tokens_used j)
     \<and> (p = None \<or> p = Some 0
          \<longrightarrow> processing_time (mark_completed j m t p now) = processing_time j)"
    for j m t p
    by (auto simp: mark_completed_def Let_def truthy_str_def truthy_int_def truthy_float_def)
  have run: "status job' = Completed \<and> completed_at job' = Some now
             \<and> tokens_used job' = tokens_used job"
    if r: "generate_summary self job d calls start_time end_time now
             = (job', d', calls', Inr summary)"
    and zero: "\<forall>k q response tokens. llm self k q = Inr (response, tokens) \<longrightarrow> tokens = 0"
  proof -
    let ?job1 = "mark_processing job"
    from r obtain summary_data tokens where
      g: "synthesis_stage self job d calls = (calls', Inr (summary_data, tokens))" and
      j': "job' = mark_completed ?job1 (model_name self) (Some tokens)
                  (Some (end_time - start_time)) now"
      by (rule generate_summary_Inr)
    from g have "generate_with_langchain self ?job1
                   (snd (fetch_document_contexts ?job1 (save_job ?job1 d))) calls
                   = (calls', Inr (summary_data, tokens))"
      by (simp add: synthesis_stage_def)
    from generate_with_langchain_zero [OF this zero] have "tokens = 0" .
    with j' fields [of ?job1 "model_name self" "Some 0" "Some (end_time - start_time)"]
    show ?thesis
      by (simp add: mark_processing_def)
  qed
  from fields [of j m t p] run show ?thesis
    by blast
qed

theorem mark_completed_skips_falsy_metadata_witness:
  "tokens_used (mark_completed (sample_job\<lparr>tokens_used := Some 42\<rparr>) (Some []) (Some 0)
                  (Some 0) 7) = Some 42
   \<and> model_used (mark_completed (sample_job\<lparr>tokens_used := Some 42\<rparr>) (Some []) (Some 0)
                  (Some 0) 7) = None
   \<and> processing_time (mark_completed (sample_job\<lparr>tokens_used := Some 42\<rparr>) (Some [])
                  (Some 0) (Some 0) 7) = None
   \<and> status (mark_completed (sample_job\<lparr>tokens_used := Some 42\<rparr>) (Some []) (Some 0)
                  (Some 0) 7) = Completed
   \<and> completed_at (mark_completed (sample_job\<lparr>tokens_used := Some 42\<rparr>) (Some [])
                  (Some 0) (Some 0) 7) = Some 7
   \<and> snd (snd (snd (generate_summary (constant_service spec_response 0) small_job empty_db
                       [] 0 2 7)))
       = Inr \<lparr>gs_id = ''sum_job-1'', gs_job_id = ''job-1'',
              gs_project_id = ''project-1'', gs_stakeholder_role = ''finance'',
              gs_full_summary = JStr ''s''\<rparr>
   \<and> status (fst (generate_summary (constant_service spec_response 0) small_job empty_db
                     [] 0 2 7)) = Completed
   \<and> tokens_used (fst (generate_summary (constant_service spec_response 0) small_job empty_db
                     [] 0 2 7)) = None"
proof -
  let ?j = "sample_job\<lparr>tokens_used := Some 42\<rparr>"
  let ?S = "constant_service spec_response 0"
  have zero: "\<forall>k q response tokens. llm ?S k q = Inr (response, tokens) \<longrightarrow> tokens = 0"
    by (simp add: constant_service_def)
  have fields: "tokens_used ?j = Some 42" "model_used ?j = None" "processing_time ?j = None"
    "tokens_used small_job = None"
    by (simp_all add: sample_job_def small_job_def)
  let ?D = "JDict [(''sections'',
                       JList [JDict [(''title'', JStr ''A''), (''content'', JStr ''c''),
                                     (''key_points'', JList [JStr ''k'']),
                                     (''evidence_ids'', JList [])]]),
                    (''full_summary'', JStr ''s''), (''tokens_used'', JInt 0)]"
  let ?summary = "\<lparr>gs_id = ''sum_job-1'', gs_job_id = ''job-1'',
              gs_project_id = ''project-1'', gs_stakeholder_role = ''finance'',
              gs_full_summary = JStr ''s''\<rparr>"
  have rec: "record_stage small_job ?D empty_db
               = (fst (record_stage small_job ?D empty_db), Inr ?summary)"
    using record_spec [of 0] by (simp add: prod_eq_iff)
  have run: "generate_summary ?S small_job empty_db [] 0 2 7
          = (mark_completed (mark_processing small_job) (model_name ?S) (Some 0)
               (Some (2 - 0)) 7,
             save_job (mark_completed (mark_processing small_job) (model_name ?S) (Some 0)
               (Some (2 - 0)) 7) (fst (record_stage small_job ?D empty_db)),
             [build_prompt (mark_processing small_job) (combine_document_texts small_contexts)
                finance_config],
             Inr ?summary)"
    by (rule generate_summary_returns [OF synthesis_spec rec])
  from mark_completed_skips_falsy_metadata
         [where j = ?j and m = "Some []" and t = "Some 0" and p = "Some 0" and now = 7
            and self = ?S and job = small_job and d = empty_db and calls = "[]"
            and start_time = 0 and end_time = 2
            and job' = "mark_completed (mark_processing small_job) (model_name ?S) (Some 0)
                          (Some (2 - 0)) 7"
            and d' = "save_job (mark_completed (mark_processing small_job) (model_name ?S)
                          (Some 0) (Some (2 - 0)) 7)
                        (fst (record_stage small_job ?D empty_db))"
            and calls' = "[build_prompt (mark_processing small_job)
                             (combine_document_texts small_contexts) finance_config]"
            and summary = ?summary]
       run zero fields
  show ?thesis
    by simp
qed

section \<open>Roles without a profile\<close>

lemma summarize_chunks_prompts:
  "\<exists>cs. fst (summarize_chunks self job config chunks acc total_tokens calls)
          = calls @ map (\<lambda>c. build_prompt job c config) cs
        \<and> (chunks \<noteq> [] \<longrightarrow> cs \<noteq> [])"
proof (induction chunks arbitrary: acc total_tokens calls)
  case Nil
  show ?case by (rule exI [of _ "[]"]) simp
next
  case (Cons chunk rest)
  let ?p = "build_prompt job chunk config"
  obtain calls1 r where s: "single_document_summary self job chunk config calls = (calls1, r)"
    by (cases "single_document_summary self job chunk config calls")
  then have c1: "calls1 = calls @ [?p]"
    using single_document_summary_calls [of self job chunk config calls] by simp
  have stop: ?case
    if "fst (summarize_chunks self job config (chunk # rest) acc total_tokens calls) = calls1"
    using that c1 by (intro exI [of _ "[chunk]"]) simp
  show ?case
  proof (cases r)
    case (Inl e)
    with s show ?thesis by (intro stop) simp
  next
    case (Inr chunk_summary)
    show ?thesis
    proof (cases "py_getitem chunk_summary ''full_summary''")
      case (Inl e)
      with s Inr show ?thesis by (intro stop) simp
    next
      case g: (Inr full_summary)
      show ?thesis
      proof (cases "add_tokens_used total_tokens chunk_summary")
        case (Inl e)
        with s Inr g show ?thesis by (intro stop) simp
      next
        case a: (Inr total')
        from Cons.IH [of "acc @ [full_summary]" total' calls1]
        obtain cs where
          "fst (summarize_chunks self job config rest (acc @ [full_summary]) total' calls1)
             = calls1 @ map (\<lambda>c. build_prompt job c config) cs"
          by blast
        with s Inr g a c1
        have "fst (summarize_chunks self job config (chunk # rest) acc total_tokens calls)
                = calls @ map (\<lambda>c. build_prompt job c config) (chunk # cs)"
          by simp
        then show ?thesis
          by (intro exI [of _ "chunk # cs"]) simp
      qed
    qed
  qed
qed

lemma multi_document_synthesis_prompts:
  "\<exists>cs. fst (multi_document_synthesis self job chunks config calls)
          = calls @ map (\<lambda>c. build_prompt job c config) cs
        \<and> (chunks \<noteq> [] \<longrightarrow> cs \<noteq> [])"
proof -
  obtain calls1 r where m: "summarize_chunks self job config chunks [] 0 calls = (calls1, r)"
    by (cases "summarize_chunks self job config chunks [] 0 calls")
  from summarize_chunks_prompts [of self job config chunks "[]" 0 calls] m
  obtain cs where cs: "calls1 = calls @ map (\<lambda>c. build_prompt job c config) cs"
    and ne: "chunks \<noteq> [] \<longrightarrow> cs \<noteq> []"
    by auto
  have single: "x = calls @ map (\<lambda>c. build_prompt job c config) (cs @ [content])"
    if "single_document_summary self job content config calls1 = (x, y)" for content x y
    using single_document_summary_calls [of self job content config calls1] that cs by simp
  have "fst (multi_document_synthesis self job chunks config calls) = calls1
        \<or> (\<exists>content. fst (multi_document_synthesis self job chunks config calls)
              = calls @ map (\<lambda>c. build_prompt job c config) (cs @ [content]))"
    by (auto simp: multi_document_synthesis_def m split: sum.splits prod.splits dest!: single)
  then show ?thesis
  proof
    assume "fst (multi_document_synthesis self job chunks config calls) = calls1"
    with cs ne show ?thesis by blast
  next
    assume "\<exists>content. fst (multi_document_synthesis self job chunks config calls)
              = calls @ map (\<lambda>c. build_prompt job c config) (cs @ [content])"
    then obtain content where
      "fst (multi_document_synthesis self job chunks config calls)
         = calls @ map (\<lambda>c. build_prompt job c config) (cs @ [content])" ..
    then show ?thesis
      by (intro exI [of _ "cs @ [content]"]) simp
  qed
qed

lemma generate_with_langchain_prompts:
  assumes cfg: "get_stakeholder_config (stakeholder_role job) = Inr config"
  shows "\<exists>cs. cs \<noteq> []
           \<and> fst (generate_with_langchain self job contexts calls)
               = calls @ map (\<lambda>c. build_prompt job c config) cs"
proof -
  let ?text = "combine_document_texts contexts"
  let ?chunks = "split_text self ?text"
  show ?thesis
  proof (cases "1 < length ?chunks")
    case True
    then have ne: "?chunks \<noteq> []" by auto
    from multi_document_synthesis_prompts [of self job ?chunks config calls] ne
    obtain cs where "cs \<noteq> []"
      "fst (multi_document_synthesis self job ?chunks config calls)
         = calls @ map (\<lambda>c. build_prompt job c config) cs"
      by blast
    moreover have "fst (generate_with_langchain self job contexts calls)
                     = fst (multi_document_synthesis self job ?chunks config calls)"
      using True cfg
      by (simp add: generate_with_langchain_def Let_def split: sum.splits prod.splits)
    ultimately show ?thesis by auto
  next
    case False
    have "fst (generate_with_langchain self job contexts calls)
            = fst (single_document_summary self job ?text config calls)"
      using False cfg
      by (simp add: generate_with_langchain_def Let_def split: sum.splits prod.splits)
    then have "fst (generate_with_langchain self job contexts calls)
                 = calls @ map (\<lambda>c. build_prompt job c config) [?text]"
      by (simp add: single_document_summary_calls)
    then show ?thesis
      by (intro exI [of _ "[?text]"]) simp
  qed
qed

text \<open>
  Claim C9: for a job whose \<^verbatim>\<open>stakeholder_role\<close> is not one of the eight known roles,
  the profile lookup does not raise and yields the \<open>executive\<close> profile; the synthesizer
  goes on to invoke the model (at least once), every prompt it sends carries the job's
  own role name together with the executive profile's focus description and section
  titles, and the run returns normally, with a summary and a token count, whenever every
  model invocation answers with a text that decodes to a JSON object holding the key
  \<^verbatim>\<open>sections\<close> and a string under \<^verbatim>\<open>full_summary\<close>.
\<close>

theorem unknown_role_uses_executive_profile:
  assumes unknown: "stakeholder_role job \<notin> set (map fst STAKEHOLDER_ROLES)"
  shows "get_stakeholder_config (stakeholder_role job) = Inr executive_config
         \<and> length calls < length (fst (generate_with_langchain self job contexts calls))
         \<and> take (length calls) (fst (generate_with_langchain self job contexts calls)) = calls
         \<and> (\<forall>p \<in> set (drop (length calls)
                          (fst (generate_with_langchain self job contexts calls))).
               p_stakeholder_role p = stakeholder_role job
               \<and> p_focus p
                   = ''high-level status, strategic risks, financial health, and key decisions needed''
               \<and> p_sections p
                   = ''Executive Summary, Strategic Overview, Financial Health, Critical Actions'')
         \<and> ((\<forall>k p. \<exists>response n kvs s.
                 llm self k p = Inr (response, n)
                 \<and> json_loads self response = Inr (JDict kvs)
                 \<and> map_of kvs ''sections'' \<noteq> None
                 \<and> map_of kvs ''full_summary'' = Some (JStr s))
              \<longrightarrow> (\<exists>calls' summary_data tokens.
                     generate_with_langchain self job contexts calls
                       = (calls', Inr (summary_data, tokens))))"
proof -
  have keys: "map fst STAKEHOLDER_PROMPTS = map fst STAKEHOLDER_ROLES"
    by (simp add: STAKEHOLDER_PROMPTS_def STAKEHOLDER_ROLES_def)
  from unknown have "map_of STAKEHOLDER_PROMPTS (stakeholder_role job) = None"
    by (simp add: map_of_eq_None_iff flip: keys)
  then have cfg: "get_stakeholder_config (stakeholder_role job) = Inr executive_config"
    by (simp add: get_stakeholder_config_total)
  from generate_with_langchain_prompts [OF cfg, of self contexts calls]
  obtain cs where ne: "cs \<noteq> []"
    and g: "fst (generate_with_langchain self job contexts calls)
              = calls @ map (\<lambda>c. build_prompt job c executive_config) cs"
    by blast
  have p: "p_stakeholder_role (build_prompt job c executive_config) = stakeholder_role job
           \<and> p_focus (build_prompt job c executive_config)
               = ''high-level status, strategic risks, financial health, and key decisions needed''
           \<and> p_sections (build_prompt job c executive_config)
               = ''Executive Summary, Strategic Overview, Financial Health, Critical Actions''"
    for c
    by (simp add: build_prompt_def Let_def executive_config_def)
  from ne have "length calls < length (calls @ map (\<lambda>c. build_prompt job c executive_config) cs)"
    by simp
  with cfg p have prompts:
    "get_stakeholder_config (stakeholder_role job) = Inr executive_config
         \<and> length calls < length (fst (generate_with_langchain self job contexts calls))
         \<and> take (length calls) (fst (generate_with_langchain self job contexts calls)) = calls
         \<and> (\<forall>p \<in> set (drop (length calls)
                          (fst (generate_with_langchain self job contexts calls))).
               p_stakeholder_role p = stakeholder_role job
               \<and> p_focus p
                   = ''high-level status, strategic risks, financial health, and key decisions needed''
               \<and> p_sections p
                   = ''Executive Summary, Strategic Overview, Financial Health, Critical Actions'')"
    unfolding g by auto
  have returns: "\<exists>calls' summary_data tokens.
                     generate_with_langchain self job contexts calls
                       = (calls', Inr (summary_data, tokens))"
    if "\<forall>k p. \<exists>response n kvs s.
                 llm self k p = Inr (response, n)
                 \<and> json_loads self response = Inr (JDict kvs)
                 \<and> map_of kvs ''sections'' \<noteq> None
                 \<and> map_of kvs ''full_summary'' = Some (JStr s)"
    using that by (rule generate_with_langchain_well_behaved)
  from prompts returns show ?thesis
    by blast
qed

theorem unknown_role_uses_executive_profile_witness:
  "stakeholder_role (sample_job\<lparr>stakeholder_role := ''intern''\<rparr>)
     \<notin> set (map fst STAKEHOLDER_ROLES)
   \<and> get_stakeholder_config (stakeholder_role (sample_job\<lparr>stakeholder_role := ''intern''\<rparr>))
       = Inr executive_config
   \<and> length ([] :: prompt list)
       < length (fst (generate_with_langchain (constant_service ok_response 5)
                        (sample_job\<lparr>stakeholder_role := ''intern''\<rparr>) sample_contexts []))
   \<and> (\<forall>k p. \<exists>response n kvs s.
          llm (constant_service ok_response 5) k p = Inr (response, n)
          \<and> json_loads (constant_service ok_response 5) response = Inr (JDict kvs)
          \<and> map_of kvs ''sections'' \<noteq> None
          \<and> map_of kvs ''full_summary'' = Some (JStr s))
   \<and> (\<exists>calls' summary_data tokens.
         generate_with_langchain (constant_service ok_response 5)
           (sample_job\<lparr>stakeholder_role := ''intern''\<rparr>) sample_contexts []
           = (calls', Inr (summary_data, tokens)))"
proof -
  have u: "stakeholder_role (sample_job\<lparr>stakeholder_role := ''intern''\<rparr>)
             \<notin> set (map fst STAKEHOLDER_ROLES)"
    by (simp add: STAKEHOLDER_ROLES_def)
  have wb: "\<forall>k p. \<exists>response n kvs s.
          llm (constant_service ok_response 5) k p = Inr (response, n)
          \<and> json_loads (constant_service ok_response 5) response = Inr (JDict kvs)
          \<and> map_of kvs ''sections'' \<noteq> None
          \<and> map_of kvs ''full_summary'' = Some (JStr s)"
    by (simp add: constant_service_def sample_loads_ok)
  from unknown_role_uses_executive_profile
         [OF u, of "[]" "constant_service ok_response 5" sample_contexts] u wb
  show ?thesis
    by blast
qed

section \<open>The two stages of the response parser\<close>

text \<open>
  Claim C6 describes the parser as a two-stage algorithm: a decoded object that has both
  keys is returned unchanged, anything else gets the deterministic placeholder summary.
  Evaluated on the code: the first stage returns the decoded object of the well-formed
  example as it is; on text that is not JSON, with the \<open>finance\<close> profile and three
  document ids, the second stage raises \<^verbatim>\<open>NameError\<close> instead of returning the
  placeholder sections; on the JSON text \<^verbatim>\<open>7\<close> the key test itself raises.
\<close>

theorem parse_two_stage_evaluated:
  "parse_llm_response (constant_service [] 0) spec_response finance_config
       [''doc1'', ''doc2'', ''doc3'']
     = Inr (JDict [(''sections'',
                       JList [JDict [(''title'', JStr ''A''), (''content'', JStr ''c''),
                                     (''key_points'', JList [JStr ''k'']),
                                     (''evidence_ids'', JList [])]]),
                    (''full_summary'', JStr ''s'')])
   \<and> json_loads (constant_service [] 0) garbage_response
       = Inl (JSONDecodeError ''Expecting value: line 1 column 1 (char 0)'')
   \<and> parse_llm_response (constant_service [] 0) garbage_response finance_config
         [''doc1'', ''doc2'', ''doc3'']
       = Inl (NameError ''job'')
   \<and> json_loads (constant_service [] 0) ''7'' = Inr (JInt 7)
   \<and> isl (parse_llm_response (constant_service [] 0) ''7'' finance_config
              [''doc1'', ''doc2'', ''doc3''])"
proof -
  have l: "json_loads (constant_service [] 0) = sample_loads"
    by (simp add: constant_service_def)
  have "try_json (constant_service [] 0) ''7''
          = Inl (TypeError (''argument of type '' @ quoted ''int'' @ '' is not iterable''))"
    by (simp add: try_json_def l sample_loads_simps)
  then show ?thesis
    by (simp add: parse_constant_service try_json_spec try_json_samples l sample_loads_simps)
qed

end
